theory Spec2Isabelle
  imports Complex_Main
begin

section \<open>Python values and built-ins used by the clients\<close>

text \<open>
  The dataretriever clients of \<^verbatim>\<open>sunpy.net.dataretriever.sources\<close> (\<^verbatim>\<open>eve.py\<close>,
  \<^verbatim>\<open>fermi_gbm.py\<close>, \<^verbatim>\<open>goes.py\<close>) decide whether they can serve a query from the
  classes and the values of the query's attributes. Strings are \<^typ>\<open>string\<close>:
  one \<^typ>\<open>char\<close> per character, the \<^typ>\<open>char\<close> being the code point of the
  character, for the characters with a code point below 256. The exceptions that the
  modelled code can raise are values of \<open>py_error\<close>; a computation that may raise
  returns \<open>py_error + 'a\<close>, with \<open>Inl\<close> for the exception.
\<close>

datatype py_error = ValueError | KeyError | UnboundLocalError

text \<open>
  The payload of an attribute whose value "can be basically anything" (\<^verbatim>\<open>Level\<close>):
  a \<^verbatim>\<open>str\<close>, an \<^verbatim>\<open>int\<close>, a \<^verbatim>\<open>float\<close> (the only operation on it is the
  comparison with \<^verbatim>\<open>0\<close>, which is exact, so a float is its real value), a
  \<^verbatim>\<open>bool\<close> or \<^verbatim>\<open>None\<close>.
\<close>

datatype py_value = PyStr string | PyInt int | PyFloat real | PyBool bool | PyNone

text \<open>
  \<^verbatim>\<open>str.lower()\<close> on the ASCII letters: \<^verbatim>\<open>A\<close>..\<^verbatim>\<open>Z\<close> become \<^verbatim>\<open>a\<close>..\<^verbatim>\<open>z\<close>. The
  clients compare a lowered value with names written in ASCII only; a character
  outside ASCII is outside ASCII after \<^verbatim>\<open>lower()\<close> as well, so leaving it as it is
  gives the same answer to each of these comparisons.
\<close>

definition lower_char :: "char \<Rightarrow> char" where
  "lower_char c =
     (case map_of (zip ''ABCDEFGHIJKLMNOPQRSTUVWXYZ'' ''abcdefghijklmnopqrstuvwxyz'') c of
        Some l \<Rightarrow> l
      | None \<Rightarrow> c)"

definition py_lower :: "string \<Rightarrow> string" where
  "py_lower s = map lower_char s"

text \<open>
  \<^verbatim>\<open>int(s)\<close> for a string, base 10: surrounding whitespace is stripped, one sign is
  allowed, and the rest must be decimal digits, where single underscores may stand
  between digits. Anything else raises \<^verbatim>\<open>ValueError\<close>. The whitespace that
  \<^verbatim>\<open>int\<close> strips is not the whitespace of \<^verbatim>\<open>str.strip\<close>: of the ASCII characters
  it is the tab, the line feed, the vertical tab, the form feed, the carriage return
  (9 to 13) and the space (32) only, not the separators 28 to 31; outside ASCII and
  below 256 it is the next-line character (133) and the no-break space (160). The
  digits below 256 are \<^verbatim>\<open>0\<close> to \<^verbatim>\<open>9\<close>. The limit that later interpreters (Python
  3.11) put on the number of digits of the string is not modelled.
\<close>

definition is_space :: "char \<Rightarrow> bool" where
  "is_space c =
     (let n = (of_char c :: nat) in (9 \<le> n \<and> n \<le> 13) \<or> n = 32 \<or> n = 133 \<or> n = 160)"

definition is_digit :: "char \<Rightarrow> bool" where
  "is_digit c = (let n = (of_char c :: nat) in 48 \<le> n \<and> n \<le> 57)"

definition digit_val :: "char \<Rightarrow> int" where
  "digit_val c = int (of_char c) - 48"

definition py_strip :: "string \<Rightarrow> string" where
  "py_strip s = rev (dropWhile is_space (rev (dropWhile is_space s)))"

text \<open>
  The digits of a literal, read left to right; \<open>prev\<close> tells whether the previous
  character was a digit (an underscore is legal only between two digits).
\<close>

fun digits_value :: "string \<Rightarrow> bool \<Rightarrow> int \<Rightarrow> int option" where
  "digits_value [] prev acc = (if prev then Some acc else None)"
| "digits_value (c # cs) prev acc =
     (if is_digit c then digits_value cs True (10 * acc + digit_val c)
      else if c = CHR ''_'' \<and> prev \<and> cs \<noteq> [] then digits_value cs False acc
      else None)"

definition py_int :: "string \<Rightarrow> py_error + int" where
  "py_int s =
     (let t = py_strip s;
          (neg, body) = (case t of
                           c # cs \<Rightarrow> if c = CHR ''-'' then (True, cs)
                                     else if c = CHR ''+'' then (False, cs)
                                     else (False, t)
                         | [] \<Rightarrow> (False, t))
      in case digits_value body False 0 of
           None \<Rightarrow> Inl ValueError
         | Some n \<Rightarrow> Inr (if neg then - n else n))"

text \<open>\<^verbatim>\<open>value != 0\<close> for a value of any of the modelled types.\<close>

fun py_ne_zero :: "py_value \<Rightarrow> bool" where
  "py_ne_zero (PyStr s) = True"
| "py_ne_zero (PyInt i) = (i \<noteq> 0)"
| "py_ne_zero (PyFloat r) = (r \<noteq> 0)"
| "py_ne_zero (PyBool b) = b"
| "py_ne_zero PyNone = True"

section \<open>Query attributes\<close>

text \<open>
  A point of time, as calendar fields. On well-formed times the lexicographic order
  of the fields is the order of time.
\<close>

record datetime =
  year :: nat
  month :: nat
  day :: nat
  hour :: nat
  minute :: nat
  second :: nat

definition dt_key :: "datetime \<Rightarrow> nat \<times> nat \<times> nat \<times> nat \<times> nat \<times> nat" where
  "dt_key t = (year t, month t, day t, hour t, minute t, second t)"

fun key_le :: "nat \<times> nat \<times> nat \<times> nat \<times> nat \<times> nat \<Rightarrow> nat \<times> nat \<times> nat \<times> nat \<times> nat \<times> nat \<Rightarrow> bool" where
  "key_le (a1, a2, a3, a4, a5, a6) (b1, b2, b3, b4, b5, b6) =
     (a1 < b1 \<or> (a1 = b1 \<and> (a2 < b2 \<or> (a2 = b2 \<and> (a3 < b3 \<or> (a3 = b3 \<and>
       (a4 < b4 \<or> (a4 = b4 \<and> (a5 < b5 \<or> (a5 = b5 \<and> a6 \<le> b6))))))))))"

definition dt_le :: "datetime \<Rightarrow> datetime \<Rightarrow> bool" where
  "dt_le s t = key_le (dt_key s) (dt_key t)"

text \<open>
  The attribute classes of \<^verbatim>\<open>sunpy.net.attrs\<close> that a query is made of, each with
  its value: \<^verbatim>\<open>Time(start, end)\<close>, \<^verbatim>\<open>Instrument(name)\<close> (the name is a string),
  \<^verbatim>\<open>Level(value)\<close>, \<^verbatim>\<open>Detector(name)\<close>, \<^verbatim>\<open>Resolution(name)\<close>,
  \<^verbatim>\<open>Wavelength(wavemin, wavemax)\<close> (in Angstrom), \<^verbatim>\<open>goes.SatelliteNumber(n)\<close>,
  \<^verbatim>\<open>Source(name)\<close>, \<^verbatim>\<open>Physobs(name)\<close> and \<^verbatim>\<open>Provider(name)\<close>.
\<close>

datatype attr =
    Time datetime datetime
  | Instrument string
  | Level py_value
  | Detector string
  | Resolution string
  | Wavelength real real
  | SatelliteNumber int
  | Source string
  | Physobs string
  | Provider string

text \<open>\<^verbatim>\<open>type(x)\<close>: the class of an attribute.\<close>

datatype attr_type =
    TTime | TInstrument | TLevel | TDetector | TResolution | TWavelength
  | TSatelliteNumber | TSource | TPhysobs | TProvider

fun type_of :: "attr \<Rightarrow> attr_type" where
  "type_of (Time s e) = TTime"
| "type_of (Instrument v) = TInstrument"
| "type_of (Level v) = TLevel"
| "type_of (Detector v) = TDetector"
| "type_of (Resolution v) = TResolution"
| "type_of (Wavelength a b) = TWavelength"
| "type_of (SatelliteNumber n) = TSatelliteNumber"
| "type_of (Source v) = TSource"
| "type_of (Physobs v) = TPhysobs"
| "type_of (Provider v) = TProvider"

text \<open>\<^verbatim>\<open>x.__class__.__name__\<close>: the name of the class of an attribute.\<close>

fun class_name :: "attr \<Rightarrow> string" where
  "class_name (Time s e) = ''Time''"
| "class_name (Instrument v) = ''Instrument''"
| "class_name (Level v) = ''Level''"
| "class_name (Detector v) = ''Detector''"
| "class_name (Resolution v) = ''Resolution''"
| "class_name (Wavelength a b) = ''Wavelength''"
| "class_name (SatelliteNumber n) = ''SatelliteNumber''"
| "class_name (Source v) = ''Source''"
| "class_name (Physobs v) = ''Physobs''"
| "class_name (Provider v) = ''Provider''"

section \<open>The capability checks of the clients\<close>

subsection \<open>GenericClient.check\_attr\_types\_in\_query\<close>

text \<open>
  Modelled from the spec: \<^verbatim>\<open>GenericClient.check_attr_types_in_query\<close>, the helper of
  the base class that \<^verbatim>\<open>EVEClient._can_handle_query\<close> calls first. The spec (section
  4.4, steps 1 and 2): reject if any attribute kind present in the query is neither in
  the required nor in the optional kinds; reject if any required kind is absent from
  the query.
\<close>

definition check_attr_types_in_query :: "attr list \<Rightarrow> attr_type set \<Rightarrow> attr_type set \<Rightarrow> bool" where
  "check_attr_types_in_query query required optional =
     (let query_attrs = type_of ` set query in
        query_attrs \<subseteq> required \<union> optional \<and> required \<subseteq> query_attrs)"

subsection \<open>EVEClient\<close>

text \<open>
  Lines 82 to 90 of \<^verbatim>\<open>EVEClient._can_handle_query\<close>: the value of a \<^verbatim>\<open>Level\<close>
  is read, and a string is replaced by \<^verbatim>\<open>0\<close> when it is \<^verbatim>\<open>0cs\<close> in any letter
  case, and by \<^verbatim>\<open>int(value)\<close> otherwise. The \<^verbatim>\<open>try\<close> catches \<^verbatim>\<open>ValueError\<close>
  only (the handler sets \<^verbatim>\<open>matches = False\<close> and leaves \<^verbatim>\<open>value\<close> the string);
  any other exception of \<^verbatim>\<open>int\<close> leaves the function. The result is the pair of
  \<^verbatim>\<open>value\<close> and \<^verbatim>\<open>matches\<close>.
\<close>

fun eve_level_value :: "py_value \<Rightarrow> bool \<Rightarrow> py_error + (py_value \<times> bool)" where
  "eve_level_value (PyStr s) matches =
     (if py_lower s = ''0cs'' then Inr (PyInt 0, matches)
      else (case py_int s of
              Inr i \<Rightarrow> Inr (PyInt i, matches)
            | Inl ValueError \<Rightarrow> Inr (PyStr s, False)
            | Inl e \<Rightarrow> Inl e))"
| "eve_level_value v matches = Inr (v, matches)"

text \<open>
  The body of the loop for one attribute \<open>x\<close>: it takes the flag \<^verbatim>\<open>matches\<close> and
  returns the new one.
\<close>

fun eve_step :: "attr \<Rightarrow> bool \<Rightarrow> py_error + bool" where
  "eve_step (Instrument v) matches =
     Inr (if py_lower v \<noteq> ''eve'' then False else matches)"
| "eve_step (Level v) matches =
     (case eve_level_value v matches of
        Inl e \<Rightarrow> Inl e
      | Inr (val, m) \<Rightarrow> Inr (if py_ne_zero val then False else m))"
| "eve_step x matches = Inr matches"

fun eve_loop :: "attr list \<Rightarrow> bool \<Rightarrow> py_error + bool" where
  "eve_loop [] matches = Inr matches"
| "eve_loop (x # xs) matches =
     (case eve_step x matches of
        Inl e \<Rightarrow> Inl e
      | Inr m \<Rightarrow> eve_loop xs m)"

definition eve_required :: "attr_type set" where
  "eve_required = {TTime, TInstrument, TLevel}"

definition eve_optional :: "attr_type set" where
  "eve_optional = {}"

definition eve_can_handle_query :: "attr list \<Rightarrow> py_error + bool" where
  "eve_can_handle_query query =
     (if \<not> check_attr_types_in_query query eve_required eve_optional then Inr False
      else eve_loop query True)"

subsection \<open>GBMClient\<close>

definition gbm_chkattr :: "string list" where
  "gbm_chkattr = [''Time'', ''Instrument'', ''Detector'', ''Resolution'']"

text \<open>The loop returns at the first \<^verbatim>\<open>Instrument\<close> whose lowered value is \<^verbatim>\<open>gbm\<close>.\<close>

fun gbm_loop :: "attr list \<Rightarrow> bool list \<Rightarrow> bool" where
  "gbm_loop [] chklist = False"
| "gbm_loop (x # xs) chklist =
     (if class_name x = ''Instrument'' \<and>
         (case x of Instrument v \<Rightarrow> py_lower v = ''gbm'' | _ \<Rightarrow> False)
      then list_all (\<lambda>b. b) chklist
      else gbm_loop xs chklist)"

definition gbm_can_handle_query :: "attr list \<Rightarrow> bool" where
  "gbm_can_handle_query query =
     (let chklist = map (\<lambda>x. class_name x \<in> set gbm_chkattr) query
      in gbm_loop query chklist)"

subsection \<open>XRSClient\<close>

definition xrs_chkattr :: "string list" where
  "xrs_chkattr = [''Time'', ''Instrument'', ''SatelliteNumber'']"

fun xrs_loop :: "attr list \<Rightarrow> bool list \<Rightarrow> bool" where
  "xrs_loop [] chklist = False"
| "xrs_loop (x # xs) chklist =
     (if class_name x = ''Instrument'' \<and>
         (case x of Instrument v \<Rightarrow> py_lower v \<in> set [''xrs'', ''goes''] | _ \<Rightarrow> False)
      then list_all (\<lambda>b. b) chklist
      else xrs_loop xs chklist)"

definition xrs_can_handle_query :: "attr list \<Rightarrow> bool" where
  "xrs_can_handle_query query =
     (let chklist = map (\<lambda>x. class_name x \<in> set xrs_chkattr) query
      in xrs_loop query chklist)"

subsection \<open>SUVIClient\<close>

definition suvi_required :: "attr_type set" where
  "suvi_required = {TTime, TInstrument}"

definition suvi_optional :: "attr_type set" where
  "suvi_optional = {TWavelength, TLevel, TSatelliteNumber}"

text \<open>The counting loop: one more for every \<^verbatim>\<open>Instrument\<close> whose lowered value is \<^verbatim>\<open>suvi\<close>.\<close>

fun suvi_count :: "attr list \<Rightarrow> nat \<Rightarrow> nat" where
  "suvi_count [] check_var_count = check_var_count"
| "suvi_count (x # xs) check_var_count =
     suvi_count xs
       (case x of
          Instrument v \<Rightarrow> if py_lower v = ''suvi'' then check_var_count + 1 else check_var_count
        | _ \<Rightarrow> check_var_count)"

definition suvi_can_handle_query :: "attr list \<Rightarrow> bool" where
  "suvi_can_handle_query query =
     (let all_attrs = type_of ` set query;
          ops = all_attrs - suvi_required
      in if ops \<noteq> {} \<and> \<not> (\<forall>elem \<in> ops. elem \<in> suvi_optional) then False
         else if suvi_count query 0 = 1 then True else False)"

subsection \<open>GBMClient.register\_values and \_check\_detector\<close>

text \<open>\<^verbatim>\<open>str(n)\<close> for an integer: its decimal digits.\<close>

definition digit_char :: "nat \<Rightarrow> char" where
  "digit_char n = ''0123456789'' ! n"

function py_str_nat :: "nat \<Rightarrow> string" where
  "py_str_nat n = (if n < 10 then [digit_char n] else py_str_nat (n div 10) @ [digit_char (n mod 10)])"
  by pat_completeness auto
termination
  by (relation "measure (\<lambda>n. n)") auto

declare py_str_nat.simps [simp del]

definition py_str_int :: "int \<Rightarrow> string" where
  "py_str_int i = (if i < 0 then CHR ''-'' # py_str_nat (nat (- i)) else py_str_nat (nat i))"

text \<open>
  The names that \<^verbatim>\<open>GBMClient.register_values\<close> registers for \<^verbatim>\<open>Detector\<close>
  (\<^verbatim>\<open>f"n{x}" for x in range(12)\<close>) and for \<^verbatim>\<open>Resolution\<close>; the descriptions that go
  with the names are left out.
\<close>

definition gbm_registered_detectors :: "string list" where
  "gbm_registered_detectors = map (\<lambda>x. ''n'' @ py_str_nat x) [0..<12]"

definition gbm_registered_resolutions :: "string list" where
  "gbm_registered_resolutions = [''CSPEC'', ''CTIME'']"

definition check_detector :: "string \<Rightarrow> py_error + string" where
  "check_detector detector =
     (let detector_numbers = map py_str_nat [0..<12];
          detector_list = map (\<lambda>i. ''n'' @ i) detector_numbers
      in if py_lower detector \<in> set detector_list then Inr (py_lower detector)
         else if detector \<in> set detector_numbers then Inr (''n'' @ detector)
         else Inl ValueError)"

section \<open>Vocabulary of the specification\<close>

text \<open>
  \<^verbatim>\<open>parse_time('2012/8/9')\<close>: a date is the time at its midnight.
\<close>

definition ymd :: "nat \<Rightarrow> nat \<Rightarrow> nat \<Rightarrow> datetime" where
  "ymd y m d = \<lparr>year = y, month = m, day = d, hour = 0, minute = 0, second = 0\<rparr>"

text \<open>
  The specification's normalisation of a \<^verbatim>\<open>Level\<close> value, in its words: the string
  \<^verbatim>\<open>0cs\<close>, compared case-insensitively, normalises to 0; any other string is
  converted with \<^verbatim>\<open>int()\<close> and must equal 0; a value that is not a string must
  equal 0.
\<close>

fun level_normalizes_to_zero :: "py_value \<Rightarrow> bool" where
  "level_normalizes_to_zero (PyStr s) = (py_lower s = ''0cs'' \<or> py_int s = Inr 0)"
| "level_normalizes_to_zero v = (\<not> py_ne_zero v)"

text \<open>The per-kind predicates of the EVE client: the instrument name and the level.\<close>

fun eve_attr_ok :: "attr \<Rightarrow> bool" where
  "eve_attr_ok (Instrument v) = (py_lower v = ''eve'')"
| "eve_attr_ok (Level v) = level_normalizes_to_zero v"
| "eve_attr_ok x = True"

text \<open>An \<^verbatim>\<open>Instrument\<close> attribute whose name, in lower case, is one of \<open>names\<close>.\<close>

fun instrument_in :: "string list \<Rightarrow> attr \<Rightarrow> bool" where
  "instrument_in names (Instrument v) = (py_lower v \<in> set names)"
| "instrument_in names x = False"

text \<open>Case-insensitive name equality of a value against a list of registered names.\<close>

definition name_registered :: "string \<Rightarrow> string list \<Rightarrow> bool" where
  "name_registered v names = (py_lower v \<in> set (map py_lower names))"

text \<open>
  Two attributes that are identical except for the letter case of the value of an
  \<^verbatim>\<open>Instrument\<close>.
\<close>

fun same_up_to_instrument_case :: "attr \<Rightarrow> attr \<Rightarrow> bool" where
  "same_up_to_instrument_case (Instrument v) (Instrument w) = (py_lower v = py_lower w)"
| "same_up_to_instrument_case x y = (x = y)"

section \<open>SUVIClient.\_get\_url\_for\_timerange\<close>

subsection \<open>Python built-ins: truncation, formatting, substring test\<close>

text \<open>\<^verbatim>\<open>int(x)\<close> for a float: truncation towards zero.\<close>

definition py_trunc :: "real \<Rightarrow> int" where
  "py_trunc x = (if 0 \<le> x then \<lfloor>x\<rfloor> else \<lceil>x\<rceil>)"

text \<open>
  The values given to \<^verbatim>\<open>str.format\<close> as keyword arguments, and the two format
  specifications that the patterns use: none (\<^verbatim>\<open>str(value)\<close>) and \<^verbatim>\<open>03\<close> (an
  integer padded with zeros to three characters).
\<close>

datatype fmt_value = FStr string | FInt int

definition zero_pad3 :: "string \<Rightarrow> string" where
  "zero_pad3 s = replicate (3 - length s) (CHR ''0'') @ s"

definition format_value :: "fmt_value \<Rightarrow> string \<Rightarrow> py_error + string" where
  "format_value v spec =
     (if spec = [] then Inr (case v of FStr s \<Rightarrow> s | FInt i \<Rightarrow> py_str_int i)
      else if spec = ''03'' then
        (case v of
           FInt i \<Rightarrow> Inr (if i < 0 then CHR ''-'' # replicate (2 - length (py_str_nat (nat (- i)))) (CHR ''0'')
                                         @ py_str_nat (nat (- i))
                         else zero_pad3 (py_str_nat (nat i)))
         | FStr s \<Rightarrow> Inl ValueError)
      else Inl ValueError)"

text \<open>
  One replacement field \<^verbatim>\<open>{name}\<close> or \<^verbatim>\<open>{name:spec}\<close>; a name that is no keyword
  argument raises \<^verbatim>\<open>KeyError\<close>.
\<close>

definition format_field :: "string \<Rightarrow> (string \<times> fmt_value) list \<Rightarrow> py_error + string" where
  "format_field field kwargs =
     (let name = takeWhile (\<lambda>c. c \<noteq> CHR '':'') field;
          spec = drop 1 (dropWhile (\<lambda>c. c \<noteq> CHR '':'') field)
      in case map_of kwargs name of
           None \<Rightarrow> Inl KeyError
         | Some v \<Rightarrow> format_value v spec)"

text \<open>
  \<^verbatim>\<open>str.format\<close> with keyword arguments, for a template without doubled braces. The second
  argument is the replacement field being read, if one is open.
\<close>

fun py_format_scan :: "string \<Rightarrow> string option \<Rightarrow> (string \<times> fmt_value) list \<Rightarrow> py_error + string" where
  "py_format_scan [] None kwargs = Inr []"
| "py_format_scan [] (Some field) kwargs = Inl ValueError"
| "py_format_scan (c # cs) None kwargs =
     (if c = CHR ''{'' then py_format_scan cs (Some []) kwargs
      else if c = CHR ''}'' then Inl ValueError
      else (case py_format_scan cs None kwargs of
              Inl e \<Rightarrow> Inl e
            | Inr rest \<Rightarrow> Inr (c # rest)))"
| "py_format_scan (c # cs) (Some field) kwargs =
     (if c = CHR ''}'' then
        (case format_field field kwargs of
           Inl e \<Rightarrow> Inl e
         | Inr s \<Rightarrow> (case py_format_scan cs None kwargs of
                       Inl e \<Rightarrow> Inl e
                     | Inr rest \<Rightarrow> Inr (s @ rest)))
      else py_format_scan cs (Some (field @ [c])) kwargs)"

definition py_format :: "string \<Rightarrow> (string \<times> fmt_value) list \<Rightarrow> py_error + string" where
  "py_format template kwargs = py_format_scan template None kwargs"

text \<open>Whether \<^verbatim>\<open>s.count(sub)\<close> is not zero: \<open>sub\<close> occurs in \<open>s\<close>.\<close>

fun occurs :: "string \<Rightarrow> string \<Rightarrow> bool" where
  "occurs sub [] = (sub = [])"
| "occurs sub (c # cs) = (take (length sub) (c # cs) = sub \<or> occurs sub cs)"

subsection \<open>The operational satellite\<close>

text \<open>
  Modelled from the spec: \<^verbatim>\<open>TimeRange\<close> of \<^verbatim>\<open>sunpy.time\<close> and its membership test
  \<^verbatim>\<open>date in timerange\<close>. The spec (section 3): a time range is an inclusive pair of
  time instants, start and end.
\<close>

definition in_timerange :: "datetime \<Rightarrow> datetime \<times> datetime \<Rightarrow> bool" where
  "in_timerange date tr = (dt_le (fst tr) date \<and> dt_le date (snd tr))"

text \<open>
  The dictionary \<^verbatim>\<open>suvi_operational\<close> of \<^verbatim>\<open>_get_goes_sat_num\<close>; \<open>now\<close> is the value
  of \<^verbatim>\<open>parse_time("now")\<close> at the call.
\<close>

definition suvi_operational :: "datetime \<Rightarrow> (int \<times> (datetime \<times> datetime)) list" where
  "suvi_operational now = [(16, (ymd 2018 6 1, now))]"

definition get_goes_sat_num :: "datetime \<Rightarrow> datetime \<Rightarrow> py_error + int" where
  "get_goes_sat_num now date =
     (let results = map fst (filter (\<lambda>(sat_num, tr). in_timerange date tr) (suvi_operational now))
      in if results \<noteq> [] then Inr (Max (set results)) else Inl ValueError)"

subsection \<open>The keyword arguments and the search patterns\<close>

text \<open>
  The keyword \<^verbatim>\<open>wavelength\<close> is a \<^verbatim>\<open>Quantity\<close> or a range with \<^verbatim>\<open>wavemin\<close> and
  \<^verbatim>\<open>wavemax\<close>; the numbers are the values in Angstrom. The keyword \<^verbatim>\<open>level\<close> is a
  string or a number, made a string by \<^verbatim>\<open>str\<close>.
\<close>

datatype wavelength_arg = Quantity real | WaveRange real real

datatype level_arg = LevelStr string | LevelInt int

fun py_str_level :: "level_arg \<Rightarrow> string" where
  "py_str_level (LevelStr s) = s"
| "py_str_level (LevelInt i) = py_str_int i"

record suvi_kwargs =
  kw_wavelength :: "wavelength_arg option"
  kw_satellitenumber :: "int option"
  kw_level :: "level_arg option"

definition supported_waves :: "int list" where
  "supported_waves = [94, 131, 171, 195, 284, 304]"

definition supported_levels :: "string list" where
  "supported_levels = [''2'', ''1b'']"

definition base_url :: string where
  "base_url = ''https://data.ngdc.noaa.gov/platforms/solar-space-observing-satellites/goes/goes{goes_number}/''"

text \<open>The three search patterns; \<^verbatim>\<open>CHR 0x5C\<close> is the backslash of \<^verbatim>\<open>.*\.fits\<close>.\<close>

definition pattern_l2 :: string where
  "pattern_l2 = base_url @
     ''l{level}/data/suvi-l{level}-ci{wave:03}/%Y/%m/%d/dr_suvi-l{level}-ci{wave:03}_g{goes_number}_s%Y%m%dT%H%M%SZ_.*''
     @ [CHR 0x5C] @ ''.fits''"

definition pattern_l1b_fe :: string where
  "pattern_l1b_fe = base_url @
     ''l{level}/suvi-l{level}-fe{wave:03}/%Y/%m/%d/OR_SUVI-L{level}-Fe{wave:03}_G{goes_number}_s%Y%j%H%M%S.*''
     @ [CHR 0x5C] @ ''.fits.gz''"

definition pattern_l1b_he304 :: string where
  "pattern_l1b_he304 = base_url @
     ''l{level}/suvi-l{level}-he{wave:03}/%Y/%m/%d/OR_SUVI-L{level}-He{wave_minus1:03}_G{goes_number}_s%Y%j%H%M%S.*''
     @ [CHR 0x5C] @ ''.fits.gz''"

definition pattern_l1b_fe094 :: string where
  "pattern_l1b_fe094 = base_url @
     ''l{level}/suvi-l{level}-fe{wave:03}/%Y/%m/%d/OR_SUVI-L{level}-Fe{wave_minus1:03}_G{goes_number}_s%Y%j%H%M%S.*''
     @ [CHR 0x5C] @ ''.fits.gz''"

text \<open>
  The choice of \<^verbatim>\<open>search_pattern\<close> in the loop. When no branch assigns, the variable
  keeps the value \<open>prev\<close> of the iteration before (\<open>None\<close>: not yet assigned).
\<close>

definition choose_search_pattern :: "string \<Rightarrow> int \<Rightarrow> string option \<Rightarrow> string option" where
  "choose_search_pattern level this_wave prev =
     (if level = ''2'' then Some pattern_l2
      else if level = ''1b'' then
        (if this_wave \<in> set [131, 171, 195, 284] then Some pattern_l1b_fe
         else if this_wave = 304 then Some pattern_l1b_he304
         else if this_wave = 94 then Some pattern_l1b_fe094
         else prev)
      else prev)"

text \<open>
  The arguments of one call \<^verbatim>\<open>Scraper(search_pattern, extractor=pattern, ...)\<close>: the
  search pattern and the keyword arguments that fill its fields. The extractor is
  the same constant in every call and is left out.
\<close>

record scraper =
  sc_pattern :: string
  sc_fields :: "(string \<times> fmt_value) list"

definition make_scraper :: "string \<Rightarrow> string \<Rightarrow> int \<Rightarrow> int \<Rightarrow> scraper" where
  "make_scraper pat level this_wave satellitenumber =
     (if occurs ''wave_minus1'' pat
      then \<lparr>sc_pattern = pat,
            sc_fields = [(''level'', FStr level), (''wave'', FInt this_wave),
                      (''goes_number'', FInt satellitenumber), (''wave_minus1'', FInt (this_wave - 1))]\<rparr>
      else \<lparr>sc_pattern = pat,
            sc_fields = [(''level'', FStr level), (''wave'', FInt this_wave),
                      (''goes_number'', FInt satellitenumber)]\<rparr>)"

text \<open>
  The loop over \<^verbatim>\<open>waves\<close>. Reading \<^verbatim>\<open>search_pattern\<close> before any branch has assigned
  it raises \<^verbatim>\<open>UnboundLocalError\<close>. The result is the list of the scrapers built, in
  the order of the waves; listing the files of each (\<^verbatim>\<open>scraper.filelist\<close>) is done
  by the network collaborator.
\<close>

fun suvi_loop :: "string \<Rightarrow> int \<Rightarrow> int list \<Rightarrow> string option \<Rightarrow> py_error + scraper list" where
  "suvi_loop level satnum [] prev = Inr []"
| "suvi_loop level satnum (this_wave # waves) prev =
     (case choose_search_pattern level this_wave prev of
        None \<Rightarrow> Inl UnboundLocalError
      | Some pat \<Rightarrow>
          (case suvi_loop level satnum waves (Some pat) of
             Inl e \<Rightarrow> Inl e
           | Inr rest \<Rightarrow> Inr (make_scraper pat level this_wave satnum # rest)))"

text \<open>
  The validation of the keyword \<^verbatim>\<open>wavelength\<close>: the list \<^verbatim>\<open>wavelength\<close> of the
  values in Angstrom, or \<^verbatim>\<open>ValueError\<close>.
\<close>

definition suvi_wavelengths :: "wavelength_arg option \<Rightarrow> py_error + real list" where
  "suvi_wavelengths w =
     (case w of
        Some (Quantity v) \<Rightarrow>
          if py_trunc v \<notin> set supported_waves then Inl ValueError else Inr [v]
      | Some (WaveRange wavemin wavemax) \<Rightarrow>
          (let compress_index = map (\<lambda>this_wave. wavemin \<le> of_int this_wave \<and> of_int this_wave \<le> wavemax)
                                    supported_waves
           in if \<not> list_ex (\<lambda>b. b) compress_index then Inl ValueError
              else Inr (map (\<lambda>(this_wave, keep). of_int this_wave)
                         (filter (\<lambda>(this_wave, keep). keep) (zip supported_waves compress_index))))
      | None \<Rightarrow> Inr (map of_int supported_waves))"

text \<open>
  \<^verbatim>\<open>SUVIClient._get_url_for_timerange\<close>, for the time \<open>now\<close> of the call, the start of
  the time range and the keyword arguments. The default of
  \<^verbatim>\<open>kwargs.get("satellitenumber", self._get_goes_sat_num(timerange.start))\<close> is an
  argument of \<^verbatim>\<open>get\<close>, so it is evaluated, and may raise, whether or not the keyword
  is given.
\<close>

definition suvi_get_url_for_timerange :: "datetime \<Rightarrow> datetime \<Rightarrow> suvi_kwargs \<Rightarrow> py_error + scraper list" where
  "suvi_get_url_for_timerange now start kwargs =
     (case suvi_wavelengths (kw_wavelength kwargs) of
        Inl e \<Rightarrow> Inl e
      | Inr wavelength_list \<Rightarrow>
          (let waves = map py_trunc wavelength_list
           in case get_goes_sat_num now start of
                Inl e \<Rightarrow> Inl e
              | Inr best \<Rightarrow>
                  (let satnum = (case kw_satellitenumber kwargs of Some n \<Rightarrow> n | None \<Rightarrow> best)
                   in if satnum < 16 then Inl ValueError
                      else (let lev = py_str_level (case kw_level kwargs of Some l \<Rightarrow> l | None \<Rightarrow> LevelStr ''2'')
                            in if lev \<notin> set supported_levels then Inl ValueError
                               else suvi_loop lev satnum waves None))))"

text \<open>The pattern that a scraper searches with: its search pattern with the fields filled.\<close>

definition scraper_pattern :: "scraper \<Rightarrow> py_error + string" where
  "scraper_pattern sc = py_format (sc_pattern sc) (sc_fields sc)"

text \<open>
  The failure conditions of \<^verbatim>\<open>_get_url_for_timerange\<close> as the documentation of the
  client lists them: a wavelength outside the supported bands, a satellite number
  below 16, a level that is neither \<^verbatim>\<open>2\<close> nor \<^verbatim>\<open>1b\<close>, and a start for which no
  satellite is operational when no satellite number is given.
\<close>

definition wavelength_unsupported :: "wavelength_arg option \<Rightarrow> bool" where
  "wavelength_unsupported w =
     (case w of
        Some (Quantity v) \<Rightarrow> py_trunc v \<notin> set supported_waves
      | Some (WaveRange wavemin wavemax) \<Rightarrow>
          \<not> (\<exists>this_wave \<in> set supported_waves. wavemin \<le> of_int this_wave \<and> of_int this_wave \<le> wavemax)
      | None \<Rightarrow> False)"

definition level_unsupported :: "level_arg option \<Rightarrow> bool" where
  "level_unsupported l =
     (py_str_level (case l of Some v \<Rightarrow> v | None \<Rightarrow> LevelStr ''2'') \<notin> set supported_levels)"

definition satellite_unsupported :: "int option \<Rightarrow> bool" where
  "satellite_unsupported n = (case n of Some k \<Rightarrow> k < 16 | None \<Rightarrow> False)"

definition suvi_input_invalid :: "datetime \<Rightarrow> datetime \<Rightarrow> suvi_kwargs \<Rightarrow> bool" where
  "suvi_input_invalid now start kwargs =
     (wavelength_unsupported (kw_wavelength kwargs)
      \<or> satellite_unsupported (kw_satellitenumber kwargs)
      \<or> level_unsupported (kw_level kwargs)
      \<or> (kw_satellitenumber kwargs = None \<and> \<not> in_timerange start (ymd 2018 6 1, now)))"

text \<open>
  The same conditions with the last one as narrow as a start before the first of June
  2018, the first day of the operational range.
\<close>

definition suvi_claimed_invalid :: "datetime \<Rightarrow> suvi_kwargs \<Rightarrow> bool" where
  "suvi_claimed_invalid start kwargs =
     (wavelength_unsupported (kw_wavelength kwargs)
      \<or> satellite_unsupported (kw_satellitenumber kwargs)
      \<or> level_unsupported (kw_level kwargs)
      \<or> (kw_satellitenumber kwargs = None \<and> \<not> dt_le (ymd 2018 6 1) start))"

section \<open>EVEClient: the URLs of a time range\<close>

text \<open>The URL template of \<^verbatim>\<open>EVEClient\<close> (\<^verbatim>\<open>baseurl\<close> in \<^verbatim>\<open>eve.py\<close>).\<close>

definition eve_baseurl :: string where
  "eve_baseurl = ''http://lasp.colorado.edu/eve/data_access/evewebdata/quicklook/'' @
                 ''L0CS/SpWx/%Y/%Y%m%d_EVE_L0CS_DIODES_1m.txt''"

text \<open>
  Modelled from the spec: the Pattern Compiler and the Time-Range Enumerator (the
  scraper of \<^verbatim>\<open>sunpy.util.scraper\<close> and \<^verbatim>\<open>GenericClient._get_url_for_timerange\<close>,
  which are not among the source files). The spec (sections 4.1, 4.2 and 6): the
  date directives of a template are year, month, day, hour, minute, second and
  two-digit year; the resolution of a template is the finest unit present in it;
  the enumerator steps through a time range by the resolution, inclusive of both
  endpoints, and a degenerate range yields exactly one bucket; rendering a bucket
  with the template is a pure function.
\<close>

datatype resolution = Year | Month | Day | Hour | Minute | Second

fun directive_unit :: "char \<Rightarrow> resolution option" where
  "directive_unit c =
     (if c = CHR ''Y'' \<or> c = CHR ''y'' then Some Year
      else if c = CHR ''m'' then Some Month
      else if c = CHR ''d'' then Some Day
      else if c = CHR ''H'' then Some Hour
      else if c = CHR ''M'' then Some Minute
      else if c = CHR ''S'' then Some Second
      else None)"

fun rank :: "resolution \<Rightarrow> nat" where
  "rank Year = 0"
| "rank Month = 1"
| "rank Day = 2"
| "rank Hour = 3"
| "rank Minute = 4"
| "rank Second = 5"

definition finer :: "resolution option \<Rightarrow> resolution \<Rightarrow> resolution option" where
  "finer best u = (case best of None \<Rightarrow> Some u | Some b \<Rightarrow> if rank b < rank u then Some u else Some b)"

text \<open>
  The resolution of a template: the finest unit among its directives (\<open>None\<close> when it
  has no directive); an unknown directive is a pattern error, the outer \<open>None\<close>.
\<close>

fun template_resolution :: "string \<Rightarrow> resolution option \<Rightarrow> resolution option option" where
  "template_resolution [] best = Some best"
| "template_resolution [c] best = (if c = CHR ''%'' then None else Some best)"
| "template_resolution (c # d # cs) best =
     (if c = CHR ''%'' then
        (case directive_unit d of
           None \<Rightarrow> None
         | Some u \<Rightarrow> template_resolution cs (finer best u))
      else template_resolution (d # cs) best)"

definition pad2 :: "nat \<Rightarrow> string" where
  "pad2 n = replicate (2 - length (py_str_nat n)) (CHR ''0'') @ py_str_nat n"

definition pad4 :: "nat \<Rightarrow> string" where
  "pad4 n = replicate (4 - length (py_str_nat n)) (CHR ''0'') @ py_str_nat n"

definition render_directive :: "char \<Rightarrow> datetime \<Rightarrow> string option" where
  "render_directive c t =
     (if c = CHR ''Y'' then Some (pad4 (year t))
      else if c = CHR ''y'' then Some (pad2 (year t mod 100))
      else if c = CHR ''m'' then Some (pad2 (month t))
      else if c = CHR ''d'' then Some (pad2 (day t))
      else if c = CHR ''H'' then Some (pad2 (hour t))
      else if c = CHR ''M'' then Some (pad2 (minute t))
      else if c = CHR ''S'' then Some (pad2 (second t))
      else None)"

text \<open>Rendering a bucket with a template; \<open>None\<close> is the pattern error.\<close>

fun render :: "string \<Rightarrow> datetime \<Rightarrow> string option" where
  "render [] t = Some []"
| "render [c] t = (if c = CHR ''%'' then None else Some [c])"
| "render (c # d # cs) t =
     (if c = CHR ''%'' then
        (case render_directive d t of
           None \<Rightarrow> None
         | Some s \<Rightarrow> (case render cs t of None \<Rightarrow> None | Some rest \<Rightarrow> Some (s @ rest)))
      else (case render (d # cs) t of None \<Rightarrow> None | Some rest \<Rightarrow> Some (c # rest)))"

text \<open>The calendar: leap years, the length of a month, the day after a day.\<close>

definition is_leap :: "nat \<Rightarrow> bool" where
  "is_leap y = (y mod 4 = 0 \<and> (y mod 100 \<noteq> 0 \<or> y mod 400 = 0))"

definition days_in_month :: "nat \<Rightarrow> nat \<Rightarrow> nat" where
  "days_in_month y m =
     (if m = 2 then (if is_leap y then 29 else 28)
      else if m \<in> set [4, 6, 9, 11] then 30 else 31)"

definition next_day :: "datetime \<Rightarrow> datetime" where
  "next_day t =
     (if day t < days_in_month (year t) (month t) then t\<lparr>day := day t + 1\<rparr>
      else if month t < 12 then t\<lparr>month := month t + 1, day := 1\<rparr>
      else t\<lparr>year := year t + 1, month := 1, day := 1\<rparr>)"

text \<open>The number of the day of a time, counted from the first of January of the year 1.\<close>

definition day_ordinal :: "datetime \<Rightarrow> int" where
  "day_ordinal t =
     (let y = int (year t) - 1
      in y * 365 + y div 4 - y div 100 + y div 400
         + int (sum_list (map (days_in_month (year t)) [1..<month t])) + int (day t))"

text \<open>
  The daily buckets of a range, both endpoints included: the day of the start, and
  stepping by one day, one bucket for every day up to the day of the end.
\<close>

definition start_of_day :: "datetime \<Rightarrow> datetime" where
  "start_of_day t = t\<lparr>hour := 0, minute := 0, second := 0\<rparr>"

fun days_from :: "nat \<Rightarrow> datetime \<Rightarrow> datetime list" where
  "days_from 0 t = []"
| "days_from (Suc n) t = t # days_from n (next_day t)"

definition enumerate_days :: "datetime \<Rightarrow> datetime \<Rightarrow> datetime list" where
  "enumerate_days start end =
     days_from (nat (day_ordinal end - day_ordinal start) + 1) (start_of_day start)"

text \<open>The candidate URLs of the EVE client for a time range.\<close>

definition eve_urls :: "datetime \<Rightarrow> datetime \<Rightarrow> string option list" where
  "eve_urls start end = map (render eve_baseurl) (enumerate_days start end)"

section \<open>Properties\<close>

subsection \<open>Evaluation of the built-ins on the names used\<close>

lemma lower_eve: "py_lower ''eve'' = ''eve''"
  by (simp add: py_lower_def lower_char_def)

lemma lower_wibble: "py_lower ''wibble'' \<noteq> ''0cs''"
  by (simp add: py_lower_def lower_char_def)

lemma int_wibble: "py_int ''wibble'' = Inl ValueError"
  by (simp add: py_int_def py_strip_def is_space_def is_digit_def)

lemma lower_gbm: "py_lower ''gbm'' = ''gbm''"
  by (simp add: py_lower_def lower_char_def)

lemma lower_suvi: "py_lower ''suvi'' = ''suvi''"
  by (simp add: py_lower_def lower_char_def)

lemma lower_xrs: "py_lower ''xrs'' = ''xrs''"
  by (simp add: py_lower_def lower_char_def)

lemma gbm_registered_detectors_eq:
  "gbm_registered_detectors =
     [''n0'', ''n1'', ''n2'', ''n3'', ''n4'', ''n5'', ''n6'', ''n7'', ''n8'', ''n9'', ''n10'', ''n11'']"
  by code_simp

lemma check_detector_n99: "check_detector ''n99'' = Inl ValueError"
  by code_simp

lemma check_detector_raises:
  "(check_detector d = Inl ValueError) =
     (py_lower d \<notin> set (map (\<lambda>i. ''n'' @ i) (map py_str_nat [0..<12])) \<and>
      d \<notin> set (map py_str_nat [0..<12]))"
  by (simp add: check_detector_def Let_def del: set_map map_map)

text \<open>
  The whitespace of \<^verbatim>\<open>int\<close>: a separator 28 before the digit raises, a no-break
  space before the digit is stripped.
\<close>

lemma int_separator: "py_int [CHR 0x1C, CHR ''0''] = Inl ValueError"
  by (simp add: py_int_def py_strip_def is_space_def is_digit_def)

lemma int_no_break_space: "py_int [CHR 0xA0, CHR ''0''] = Inr 0"
  by (simp add: py_int_def py_strip_def is_space_def is_digit_def digit_val_def)

lemma n99_unregistered: "\<not> name_registered ''n99'' gbm_registered_detectors"
  by (simp add: name_registered_def gbm_registered_detectors_eq py_lower_def lower_char_def)


subsection \<open>What each capability check computes\<close>

text \<open>\<^verbatim>\<open>int\<close> of a string raises nothing but \<^verbatim>\<open>ValueError\<close>.\<close>

lemma py_int_error: "py_int s = Inl e \<Longrightarrow> e = ValueError"
  by (auto simp: py_int_def Let_def split: prod.splits option.splits list.splits if_splits)

lemma eve_level_value_str:
  "eve_level_value (PyStr s) m =
     (if py_lower s = ''0cs'' then Inr (PyInt 0, m)
      else case py_int s of Inr i \<Rightarrow> Inr (PyInt i, m) | Inl e \<Rightarrow> Inr (PyStr s, False))"
proof (cases "py_int s")
  case (Inl e)
  then have "e = ValueError" by (rule py_int_error)
  with Inl show ?thesis by simp
next
  case (Inr i)
  then show ?thesis by simp
qed

lemma eve_step_level: "eve_step (Level v) m = Inr (m \<and> level_normalizes_to_zero v)"
proof (cases v)
  case (PyStr s)
  show ?thesis unfolding PyStr
    by (cases "py_int s") (auto simp: eve_level_value_str simp del: eve_level_value.simps)
qed auto

lemma eve_step_eq: "eve_step x m = Inr (m \<and> eve_attr_ok x)"
  by (cases x) (simp_all add: eve_step_level del: eve_step.simps(2))

lemma eve_loop_eq: "eve_loop q m = Inr (m \<and> (\<forall>x\<in>set q. eve_attr_ok x))"
  by (induction q arbitrary: m) (auto simp: eve_step_eq simp del: eve_step.simps)

lemma eve_can_handle_query_eq:
  "eve_can_handle_query q =
     Inr (check_attr_types_in_query q eve_required eve_optional \<and> (\<forall>x\<in>set q. eve_attr_ok x))"
  by (simp add: eve_can_handle_query_def eve_loop_eq)

lemma gbm_loop_eq:
  "gbm_loop q chklist = ((\<exists>x\<in>set q. instrument_in [''gbm''] x) \<and> list_all (\<lambda>b. b) chklist)"
  by (induction q) (auto split: attr.splits)

lemma gbm_can_handle_query_eq:
  "gbm_can_handle_query q =
     ((\<exists>x\<in>set q. instrument_in [''gbm''] x) \<and> (\<forall>x\<in>set q. class_name x \<in> set gbm_chkattr))"
  by (simp add: gbm_can_handle_query_def gbm_loop_eq list_all_iff)

lemma xrs_loop_eq:
  "xrs_loop q chklist = ((\<exists>x\<in>set q. instrument_in [''xrs'', ''goes''] x) \<and> list_all (\<lambda>b. b) chklist)"
  by (induction q) (auto split: attr.splits)

lemma xrs_can_handle_query_eq:
  "xrs_can_handle_query q =
     ((\<exists>x\<in>set q. instrument_in [''xrs'', ''goes''] x) \<and> (\<forall>x\<in>set q. class_name x \<in> set xrs_chkattr))"
  by (simp add: xrs_can_handle_query_def xrs_loop_eq list_all_iff)

lemma suvi_count_eq:
  "suvi_count q n = n + length (filter (instrument_in [''suvi'']) q)"
  by (induction q arbitrary: n) (auto split: attr.splits)

lemma suvi_can_handle_query_eq:
  "suvi_can_handle_query q =
     ((\<forall>x\<in>set q. type_of x \<in> suvi_required \<union> suvi_optional) \<and>
      length (filter (instrument_in [''suvi'']) q) = 1)"
  by (auto simp: suvi_can_handle_query_def Let_def suvi_count_eq)

lemma check_eve_three:
  "check_attr_types_in_query [Time s e, Instrument v, Level l] eve_required eve_optional"
  by (simp add: check_attr_types_in_query_def eve_required_def eve_optional_def)

lemma eve_level_swap:
  "level_normalizes_to_zero v = level_normalizes_to_zero w \<Longrightarrow>
   eve_can_handle_query (xs @ Level v # ys) = eve_can_handle_query (xs @ Level w # ys)"
  by (simp add: eve_can_handle_query_eq check_attr_types_in_query_def ball_Un)

lemma eve_level_reject:
  "\<not> level_normalizes_to_zero v \<Longrightarrow> eve_can_handle_query (xs @ Level v # ys) = Inr False"
  by (simp add: eve_can_handle_query_eq)

lemma instrument_in_type: "instrument_in names x \<Longrightarrow> type_of x = TInstrument"
  by (cases x) simp_all

lemma no_instrument: "TInstrument \<notin> type_of ` set q \<Longrightarrow> \<not> (\<exists>x\<in>set q. instrument_in names x)"
  by (metis imageI instrument_in_type)

lemma no_instrument_filter: "TInstrument \<notin> type_of ` set q \<Longrightarrow> filter (instrument_in names) q = []"
  by (simp add: filter_empty_conv) (metis imageI instrument_in_type)

subsection \<open>Queries that differ in the letter case of an instrument name\<close>

lemma same_type: "same_up_to_instrument_case x y \<Longrightarrow> type_of x = type_of y"
  by (cases x; cases y) simp_all

lemma same_class_name: "same_up_to_instrument_case x y \<Longrightarrow> class_name x = class_name y"
  by (cases x; cases y) simp_all

lemma same_instrument_in: "same_up_to_instrument_case x y \<Longrightarrow> instrument_in names x = instrument_in names y"
  by (cases x; cases y) simp_all

lemma same_eve_attr_ok: "same_up_to_instrument_case x y \<Longrightarrow> eve_attr_ok x = eve_attr_ok y"
  by (cases x; cases y) simp_all

lemma same_map:
  "list_all2 same_up_to_instrument_case q q' \<Longrightarrow> (\<And>x y. same_up_to_instrument_case x y \<Longrightarrow> f x = f y)
   \<Longrightarrow> map f q = map f q'"
  by (induction rule: list_all2_induct) simp_all

lemma same_types:
  assumes "list_all2 same_up_to_instrument_case q q'"
  shows "type_of ` set q = type_of ` set q'"
proof -
  have "map type_of q = map type_of q'" using assms by (rule same_map) (rule same_type)
  then have "set (map type_of q) = set (map type_of q')" by simp
  then show ?thesis by simp
qed

lemma same_all:
  assumes "list_all2 same_up_to_instrument_case q q'"
    and "\<And>x y. same_up_to_instrument_case x y \<Longrightarrow> P x = P y"
  shows "(\<forall>x\<in>set q. P x) = (\<forall>x\<in>set q'. P x)"
proof -
  have "map P q = map P q'" using assms(1) by (rule same_map) (rule assms(2))
  then have "set (map P q) = set (map P q')" by simp
  then have "P ` set q = P ` set q'" by simp
  then show ?thesis by (metis (full_types) image_iff)
qed

lemma same_ex:
  assumes "list_all2 same_up_to_instrument_case q q'"
    and "\<And>x y. same_up_to_instrument_case x y \<Longrightarrow> P x = P y"
  shows "(\<exists>x\<in>set q. P x) = (\<exists>x\<in>set q'. P x)"
proof -
  have "(\<forall>x\<in>set q. \<not> P x) = (\<forall>x\<in>set q'. \<not> P x)"
    using assms(1) by (rule same_all) (simp add: assms(2))
  then show ?thesis by blast
qed

lemma same_filter_length:
  "list_all2 same_up_to_instrument_case q q' \<Longrightarrow>
   length (filter (instrument_in names) q) = length (filter (instrument_in names) q')"
  by (induction rule: list_all2_induct) (auto dest: same_instrument_in)

subsection \<open>The validation and the loop of the SUVI client\<close>

lemma py_trunc_of_int: "py_trunc (of_int w) = w"
  by (simp add: py_trunc_def)

lemma get_goes_sat_num_eq:
  "get_goes_sat_num now date =
     (if in_timerange date (ymd 2018 6 1, now) then Inr 16 else Inl ValueError)"
  by (simp add: get_goes_sat_num_def suvi_operational_def)

lemma list_ex_map_id: "list_ex (\<lambda>b. b) (map P xs) = (\<exists>x\<in>set xs. P x)"
  by (induction xs) auto

lemma suvi_wavelengths_cases:
  "(wavelength_unsupported w \<and> suvi_wavelengths w = Inl ValueError) \<or>
   (\<not> wavelength_unsupported w \<and>
    (\<exists>ws. suvi_wavelengths w = Inr ws \<and> set (map py_trunc ws) \<subseteq> set supported_waves))"
proof (cases w)
  case None
  then show ?thesis
    by (simp add: suvi_wavelengths_def wavelength_unsupported_def py_trunc_of_int image_image)
next
  case (Some a)
  show ?thesis
  proof (cases a)
    case (Quantity v)
    with Some show ?thesis
      by (simp add: suvi_wavelengths_def wavelength_unsupported_def)
  next
    case (WaveRange lo hi)
    have sub: "set (map py_trunc (map (\<lambda>(this_wave, keep). of_int this_wave)
                 (filter (\<lambda>(this_wave, keep). keep) (zip supported_waves bs)))) \<subseteq> set supported_waves" for bs
      by (auto simp: py_trunc_of_int dest: set_zip_leftD)
    from Some WaveRange sub show ?thesis
      by (simp add: suvi_wavelengths_def wavelength_unsupported_def list_ex_map_id Let_def
          del: set_map map_map)
  qed
qed

lemma choose_search_pattern_Some:
  "lev \<in> set supported_levels \<Longrightarrow> w \<in> set supported_waves \<Longrightarrow>
   \<exists>pat. choose_search_pattern lev w prev = Some pat"
  by (auto simp: choose_search_pattern_def supported_levels_def supported_waves_def)

lemma suvi_loop_ok:
  "lev \<in> set supported_levels \<Longrightarrow> set ws \<subseteq> set supported_waves \<Longrightarrow>
   \<exists>scs. suvi_loop lev g ws prev = Inr scs \<and> length scs = length ws"
proof (induction ws arbitrary: prev)
  case Nil
  then show ?case by simp
next
  case (Cons w ws)
  from Cons.prems obtain pat where pat: "choose_search_pattern lev w prev = Some pat"
    using choose_search_pattern_Some [of lev w prev] by auto
  from Cons.IH [of "Some pat"] Cons.prems obtain scs
    where "suvi_loop lev g ws (Some pat) = Inr scs" "length scs = length ws" by auto
  with pat show ?case by simp
qed

lemma suvi_get_url_for_timerange_cases:
  "((wavelength_unsupported (kw_wavelength kw) \<or> \<not> in_timerange start (ymd 2018 6 1, now)
      \<or> satellite_unsupported (kw_satellitenumber kw) \<or> level_unsupported (kw_level kw))
    \<and> suvi_get_url_for_timerange now start kw = Inl ValueError)
   \<or> (\<not> (wavelength_unsupported (kw_wavelength kw) \<or> \<not> in_timerange start (ymd 2018 6 1, now)
      \<or> satellite_unsupported (kw_satellitenumber kw) \<or> level_unsupported (kw_level kw))
    \<and> (\<exists>scs. suvi_get_url_for_timerange now start kw = Inr scs))"
proof -
  consider (bad) "wavelength_unsupported (kw_wavelength kw)" "suvi_wavelengths (kw_wavelength kw) = Inl ValueError"
    | (good) ws where "\<not> wavelength_unsupported (kw_wavelength kw)"
        "suvi_wavelengths (kw_wavelength kw) = Inr ws" "set (map py_trunc ws) \<subseteq> set supported_waves"
    using suvi_wavelengths_cases [of "kw_wavelength kw"] by blast
  then show ?thesis
  proof cases
    case bad
    then show ?thesis by (simp add: suvi_get_url_for_timerange_def)
  next
    case good
    show ?thesis
    proof (cases "in_timerange start (ymd 2018 6 1, now)")
      case False
      with good show ?thesis
        by (simp add: suvi_get_url_for_timerange_def get_goes_sat_num_eq)
    next
      case True
      show ?thesis
      proof (cases "satellite_unsupported (kw_satellitenumber kw)")
        case sat: True
        with good True show ?thesis
          by (auto simp: suvi_get_url_for_timerange_def get_goes_sat_num_eq satellite_unsupported_def
              split: option.splits)
      next
        case sat: False
        show ?thesis
        proof (cases "level_unsupported (kw_level kw)")
          case lev: True
          with good True sat show ?thesis
            by (auto simp: suvi_get_url_for_timerange_def get_goes_sat_num_eq satellite_unsupported_def
                level_unsupported_def Let_def split: option.splits)
        next
          case lev: False
          define l where "l = py_str_level (case kw_level kw of Some v \<Rightarrow> v | None \<Rightarrow> LevelStr ''2'')"
          define g where "g = (case kw_satellitenumber kw of Some n \<Rightarrow> n | None \<Rightarrow> 16)"
          from lev have l: "l \<in> set supported_levels" by (simp add: level_unsupported_def l_def)
          from sat have g: "\<not> g < 16" by (simp add: satellite_unsupported_def g_def split: option.splits)
          from suvi_loop_ok [OF l good(3), of g None] obtain scs
            where scs: "suvi_loop l g (map py_trunc ws) None = Inr scs" by blast
          have "suvi_get_url_for_timerange now start kw = suvi_loop l g (map py_trunc ws) None"
            using good True g l
            by (simp add: suvi_get_url_for_timerange_def get_goes_sat_num_eq Let_def l_def g_def)
          with scs good True sat lev show ?thesis by simp
        qed
      qed
    qed
  qed
qed

lemma occurs_he304: "occurs ''wave_minus1'' pattern_l1b_he304"
  by code_simp

lemma occurs_fe094: "occurs ''wave_minus1'' pattern_l1b_fe094"
  by code_simp

lemma occurs_fe: "\<not> occurs ''wave_minus1'' pattern_l1b_fe"
  by code_simp

lemma occurs_l2: "\<not> occurs ''wave_minus1'' pattern_l2"
  by code_simp

subsection \<open>The calendar and the rendering of the EVE template\<close>

lemma render_eve_baseurl:
  "render eve_baseurl t =
     Some (''http://lasp.colorado.edu/eve/data_access/evewebdata/quicklook/L0CS/SpWx/'' @ pad4 (year t) @
           ''/'' @ pad4 (year t) @ pad2 (month t) @ pad2 (day t) @ ''_EVE_L0CS_DIODES_1m.txt'')"
  by (simp add: eve_baseurl_def render_directive_def)

lemma render_ymd:
  "render eve_baseurl (ymd y m d) =
     Some (''http://lasp.colorado.edu/eve/data_access/evewebdata/quicklook/L0CS/SpWx/'' @ pad4 y @
           ''/'' @ pad4 y @ pad2 m @ pad2 d @ ''_EVE_L0CS_DIODES_1m.txt'')"
  by (simp add: render_eve_baseurl ymd_def)

lemma pad4_2012: "pad4 2012 = ''2012''"
  by (simp add: pad4_def py_str_nat.simps digit_char_def)

lemma pad2_vals: "pad2 7 = ''07''" "pad2 14 = ''14''" "pad2 4 = ''04''" "pad2 21 = ''21''"
  by (simp_all add: pad2_def py_str_nat.simps digit_char_def)

lemma months_before_7: "[1..<7] = [1, 2, 3, 4, 5, 6 :: nat]"
  by (simp add: upt_rec_numeral upt_conv_Cons)

lemma ord_0707: "day_ordinal (ymd 2012 7 7) = 734691"
  by (simp add: day_ordinal_def ymd_def days_in_month_def is_leap_def months_before_7 Let_def del: One_nat_def)

lemma ord_0714: "day_ordinal (ymd 2012 7 14) = 734698"
  by (simp add: day_ordinal_def ymd_def days_in_month_def is_leap_def months_before_7 Let_def del: One_nat_def)

lemma next_day_july: "d < 31 \<Longrightarrow> next_day (ymd 2012 7 d) = ymd 2012 7 (d + 1)"
  by (simp add: next_day_def ymd_def days_in_month_def)

lemma start_of_day_ymd: "start_of_day (ymd y m d) = ymd y m d"
  by (simp add: start_of_day_def ymd_def)

lemma days_from_8:
  "days_from 8 t = [t, next_day t, next_day (next_day t), next_day (next_day (next_day t)),
     next_day (next_day (next_day (next_day t))), next_day (next_day (next_day (next_day (next_day t)))),
     next_day (next_day (next_day (next_day (next_day (next_day t))))),
     next_day (next_day (next_day (next_day (next_day (next_day (next_day t))))))]"
  by (simp add: numeral_eq_Suc)

lemma enum_july:
  "enumerate_days (ymd 2012 7 7) (ymd 2012 7 14) =
     [ymd 2012 7 7, ymd 2012 7 8, ymd 2012 7 9, ymd 2012 7 10, ymd 2012 7 11, ymd 2012 7 12,
      ymd 2012 7 13, ymd 2012 7 14]"
  by (simp add: enumerate_days_def ord_0707 ord_0714 start_of_day_ymd days_from_8 next_day_july)

lemma enum_one: "enumerate_days t t = [start_of_day t]"
  by (simp add: enumerate_days_def)

section \<open>The claims about the capability checks\<close>

text \<open>
  Claim C1. \<^verbatim>\<open>EVEClient._can_handle_query\<close> accepts the \<^verbatim>\<open>Level\<close> of a query
  exactly when its value normalises to 0: with a \<^verbatim>\<open>Time\<close> and \<^verbatim>\<open>Instrument('eve')\<close>
  the answer is the normalisation of the level, and for any query the answer is the
  check of the attribute types together with the per-kind predicates of all
  attributes. Hence a level string that is \<^verbatim>\<open>0cs\<close> in any letter case is accepted
  exactly as \<^verbatim>\<open>Level(0)\<close> is, in any query, while \<^verbatim>\<open>Level("wibble")\<close> and
  \<^verbatim>\<open>Level(0.5)\<close> make any query rejected.
\<close>

theorem eve_level_alias:
  "eve_can_handle_query [Time s e, Instrument ''eve'', Level v] = Inr (level_normalizes_to_zero v)
   \<and> eve_can_handle_query q =
       Inr (check_attr_types_in_query q eve_required eve_optional \<and>
            (\<forall>x\<in>set q. case x of Instrument n \<Rightarrow> py_lower n = ''eve''
                              | Level l \<Rightarrow> level_normalizes_to_zero l
                              | _ \<Rightarrow> True))
   \<and> (py_lower a = ''0cs'' \<longrightarrow>
        eve_can_handle_query (xs @ Level (PyStr a) # ys) = eve_can_handle_query (xs @ Level (PyInt 0) # ys))
   \<and> eve_can_handle_query (xs @ Level (PyStr ''wibble'') # ys) = Inr False
   \<and> eve_can_handle_query (xs @ Level (PyFloat (1 / 2)) # ys) = Inr False"
proof -
  have ok: "eve_attr_ok x = (case x of Instrument n \<Rightarrow> py_lower n = ''eve''
                              | Level l \<Rightarrow> level_normalizes_to_zero l
                              | _ \<Rightarrow> True)" for x
    by (cases x) simp_all
  have 1: "eve_can_handle_query [Time s e, Instrument ''eve'', Level v] = Inr (level_normalizes_to_zero v)"
    by (simp add: eve_can_handle_query_eq check_eve_three lower_eve)
  have 2: "eve_can_handle_query q =
       Inr (check_attr_types_in_query q eve_required eve_optional \<and>
            (\<forall>x\<in>set q. case x of Instrument n \<Rightarrow> py_lower n = ''eve''
                              | Level l \<Rightarrow> level_normalizes_to_zero l
                              | _ \<Rightarrow> True))"
    using eve_can_handle_query_eq [of q] by (simp only: ok)
  have 3: "py_lower a = ''0cs'' \<longrightarrow>
        eve_can_handle_query (xs @ Level (PyStr a) # ys) = eve_can_handle_query (xs @ Level (PyInt 0) # ys)"
    by (auto intro!: eve_level_swap)
  have 4: "eve_can_handle_query (xs @ Level (PyStr ''wibble'') # ys) = Inr False"
    by (rule eve_level_reject) (simp add: lower_wibble int_wibble)
  have 5: "eve_can_handle_query (xs @ Level (PyFloat (1 / 2)) # ys) = Inr False"
    by (rule eve_level_reject) simp
  from 1 2 3 4 5 show ?thesis by blast
qed

text \<open>
  The theorem at the query of the test of the client with \<^verbatim>\<open>Level('0CS')\<close>, and
  at the same query with \<^verbatim>\<open>Level(0)\<close> and with \<^verbatim>\<open>Level('1')\<close>: the first two get
  the same answer, which is acceptance, and the third is rejected.
\<close>

theorem eve_level_alias_witness:
  "py_lower ''0CS'' = ''0cs''
   \<and> eve_can_handle_query [Time (ymd 2012 8 9) (ymd 2012 8 10), Instrument ''eve'', Level (PyStr ''0CS'')]
       = eve_can_handle_query [Time (ymd 2012 8 9) (ymd 2012 8 10), Instrument ''eve'', Level (PyInt 0)]
   \<and> eve_can_handle_query [Time (ymd 2012 8 9) (ymd 2012 8 10), Instrument ''eve'', Level (PyInt 0)] = Inr True
   \<and> eve_can_handle_query [Time (ymd 2012 8 9) (ymd 2012 8 10), Instrument ''eve'', Level (PyStr ''1'')] = Inr False"
proof -
  have l: "py_lower ''0CS'' = ''0cs''" by (simp add: py_lower_def lower_char_def)
  have i: "py_int ''1'' = Inr 1"
    by (simp add: py_int_def py_strip_def is_space_def is_digit_def digit_val_def)
  have l1: "py_lower ''1'' \<noteq> ''0cs''" by (simp add: py_lower_def lower_char_def)
  have a: "eve_can_handle_query [Time (ymd 2012 8 9) (ymd 2012 8 10), Instrument ''eve'', Level (PyInt 0)] = Inr True"
    using eve_level_alias [where s = "ymd 2012 8 9" and e = "ymd 2012 8 10" and v = "PyInt 0", THEN conjunct1]
    by simp
  have b: "eve_can_handle_query [Time (ymd 2012 8 9) (ymd 2012 8 10), Instrument ''eve'', Level (PyStr ''0CS'')]
       = eve_can_handle_query [Time (ymd 2012 8 9) (ymd 2012 8 10), Instrument ''eve'', Level (PyInt 0)]"
    using eve_level_alias [where a = "''0CS''"
        and xs = "[Time (ymd 2012 8 9) (ymd 2012 8 10), Instrument ''eve'']" and ys = "[]",
        THEN conjunct2, THEN conjunct2, THEN conjunct1] l
    by simp
  have c: "eve_can_handle_query [Time (ymd 2012 8 9) (ymd 2012 8 10), Instrument ''eve'', Level (PyStr ''1'')] = Inr False"
    using eve_level_alias [where s = "ymd 2012 8 9" and e = "ymd 2012 8 10" and v = "PyStr ''1''", THEN conjunct1] i l1
    by simp
  from l a b c show ?thesis by blast
qed

text \<open>
  Claim C2, as stated, fails: \<^verbatim>\<open>GBMClient._can_handle_query\<close> has no required
  kinds, and a query made of \<^verbatim>\<open>Instrument('gbm')\<close> alone, with no \<^verbatim>\<open>Time\<close>, is
  accepted.
\<close>

theorem gbm_accepts_query_without_time:
  "TTime \<notin> type_of ` set [Instrument ''gbm''] \<and> gbm_can_handle_query [Instrument ''gbm'']"
  by (simp add: gbm_can_handle_query_eq gbm_chkattr_def lower_gbm)

text \<open>
  Claim C2, amended. \<^verbatim>\<open>EVEClient\<close> rejects every query in which \<^verbatim>\<open>Time\<close>,
  \<^verbatim>\<open>Instrument\<close> or \<^verbatim>\<open>Level\<close> is absent. \<^verbatim>\<open>GBMClient\<close>, \<^verbatim>\<open>XRSClient\<close> and
  \<^verbatim>\<open>SUVIClient\<close> reject every query in which \<^verbatim>\<open>Instrument\<close> is absent.
  \<^verbatim>\<open>GBMClient\<close> and \<^verbatim>\<open>XRSClient\<close> do not ask for a \<^verbatim>\<open>Time\<close>: a query of
  \<^verbatim>\<open>Instrument('gbm')\<close> alone, or of \<^verbatim>\<open>Instrument('xrs')\<close> alone, is accepted.
\<close>

theorem required_kind_absent_rejected:
  "((TTime \<notin> type_of ` set q \<or> TInstrument \<notin> type_of ` set q \<or> TLevel \<notin> type_of ` set q)
      \<longrightarrow> eve_can_handle_query q = Inr False)
   \<and> (TInstrument \<notin> type_of ` set q
      \<longrightarrow> \<not> gbm_can_handle_query q \<and> \<not> xrs_can_handle_query q \<and> \<not> suvi_can_handle_query q)
   \<and> gbm_can_handle_query [Instrument ''gbm'']
   \<and> xrs_can_handle_query [Instrument ''xrs'']"
proof -
  have 1: "(TTime \<notin> type_of ` set q \<or> TInstrument \<notin> type_of ` set q \<or> TLevel \<notin> type_of ` set q)
      \<longrightarrow> eve_can_handle_query q = Inr False"
    by (auto simp: eve_can_handle_query_eq check_attr_types_in_query_def eve_required_def)
  have 2: "TInstrument \<notin> type_of ` set q
      \<longrightarrow> \<not> gbm_can_handle_query q \<and> \<not> xrs_can_handle_query q \<and> \<not> suvi_can_handle_query q"
  proof
    assume a: "TInstrument \<notin> type_of ` set q"
    have "\<not> gbm_can_handle_query q"
      using no_instrument [OF a] by (simp add: gbm_can_handle_query_eq)
    moreover have "\<not> xrs_can_handle_query q"
      using no_instrument [OF a] by (simp add: xrs_can_handle_query_eq)
    moreover have "\<not> suvi_can_handle_query q"
      using no_instrument_filter [OF a] by (simp add: suvi_can_handle_query_eq)
    ultimately show "\<not> gbm_can_handle_query q \<and> \<not> xrs_can_handle_query q \<and> \<not> suvi_can_handle_query q"
      by blast
  qed
  have 3: "gbm_can_handle_query [Instrument ''gbm'']"
    by (simp add: gbm_can_handle_query_eq gbm_chkattr_def lower_gbm)
  have 4: "xrs_can_handle_query [Instrument ''xrs'']"
    by (simp add: xrs_can_handle_query_eq xrs_chkattr_def lower_xrs)
  from 1 2 3 4 show ?thesis by blast
qed

text \<open>
  The theorem at a query without \<^verbatim>\<open>Time\<close> for the EVE client and at a query
  without \<^verbatim>\<open>Instrument\<close> for the other three.
\<close>

theorem required_kind_absent_rejected_witness:
  "TTime \<notin> type_of ` set [Instrument ''eve'', Level (PyInt 0)]
   \<and> eve_can_handle_query [Instrument ''eve'', Level (PyInt 0)] = Inr False
   \<and> TInstrument \<notin> type_of ` set [Time (ymd 2012 7 7) (ymd 2012 7 7)]
   \<and> \<not> gbm_can_handle_query [Time (ymd 2012 7 7) (ymd 2012 7 7)]
   \<and> \<not> xrs_can_handle_query [Time (ymd 2012 7 7) (ymd 2012 7 7)]
   \<and> \<not> suvi_can_handle_query [Time (ymd 2012 7 7) (ymd 2012 7 7)]"
proof -
  have a: "TTime \<notin> type_of ` set [Instrument ''eve'', Level (PyInt 0)]" by simp
  have b: "TInstrument \<notin> type_of ` set [Time (ymd 2012 7 7) (ymd 2012 7 7)]" by simp
  from a required_kind_absent_rejected [where q = "[Instrument ''eve'', Level (PyInt 0)]", THEN conjunct1]
  have c: "eve_can_handle_query [Instrument ''eve'', Level (PyInt 0)] = Inr False" by blast
  from b required_kind_absent_rejected [where q = "[Time (ymd 2012 7 7) (ymd 2012 7 7)]",
      THEN conjunct2, THEN conjunct1]
  have d: "\<not> gbm_can_handle_query [Time (ymd 2012 7 7) (ymd 2012 7 7)]
   \<and> \<not> xrs_can_handle_query [Time (ymd 2012 7 7) (ymd 2012 7 7)]
   \<and> \<not> suvi_can_handle_query [Time (ymd 2012 7 7) (ymd 2012 7 7)]" by blast
  from a b c d show ?thesis by blast
qed

text \<open>
  \<^verbatim>\<open>SUVIClient._can_handle_query\<close> names \<^verbatim>\<open>Time\<close> and \<^verbatim>\<open>Instrument\<close> as required
  and its comment takes both to be present after the check of the optional types,
  but the set \<^verbatim>\<open>required\<close> is only subtracted from the types of the query: a query
  of \<^verbatim>\<open>Instrument('suvi')\<close> alone is accepted.
\<close>

lemma suvi_accepts_query_without_time:
  "TTime \<notin> type_of ` set [Instrument ''suvi''] \<and> suvi_can_handle_query [Instrument ''suvi'']"
  by (simp add: suvi_can_handle_query_eq suvi_required_def lower_suvi)

text \<open>
  Claim C3. The capability checks are monotone under query extension: when an
  attribute \<open>x\<close> whose kind a client does not recognise (for \<^verbatim>\<open>EVEClient\<close> and
  \<^verbatim>\<open>SUVIClient\<close> a type outside the required and optional types, for \<^verbatim>\<open>GBMClient\<close>
  and \<^verbatim>\<open>XRSClient\<close> a class name outside \<^verbatim>\<open>chkattr\<close>) is added anywhere to a
  query, a rejected query stays rejected; indeed the extended query is always
  rejected, so acceptance can only flip from true to false.
\<close>

theorem can_handle_monotone:
  "(type_of x \<notin> eve_required \<union> eve_optional \<longrightarrow>
      eve_can_handle_query (xs @ x # ys) = Inr False \<and>
      (eve_can_handle_query (xs @ ys) \<noteq> Inr True \<longrightarrow> eve_can_handle_query (xs @ x # ys) \<noteq> Inr True))
   \<and> (class_name x \<notin> set gbm_chkattr \<longrightarrow>
      \<not> gbm_can_handle_query (xs @ x # ys) \<and>
      (\<not> gbm_can_handle_query (xs @ ys) \<longrightarrow> \<not> gbm_can_handle_query (xs @ x # ys)))
   \<and> (class_name x \<notin> set xrs_chkattr \<longrightarrow>
      \<not> xrs_can_handle_query (xs @ x # ys) \<and>
      (\<not> xrs_can_handle_query (xs @ ys) \<longrightarrow> \<not> xrs_can_handle_query (xs @ x # ys)))
   \<and> (type_of x \<notin> suvi_required \<union> suvi_optional \<longrightarrow>
      \<not> suvi_can_handle_query (xs @ x # ys) \<and>
      (\<not> suvi_can_handle_query (xs @ ys) \<longrightarrow> \<not> suvi_can_handle_query (xs @ x # ys)))"
proof -
  have e: "type_of x \<notin> eve_required \<union> eve_optional \<Longrightarrow> eve_can_handle_query (xs @ x # ys) = Inr False"
    by (auto simp: eve_can_handle_query_eq check_attr_types_in_query_def)
  have g: "class_name x \<notin> set gbm_chkattr \<Longrightarrow> \<not> gbm_can_handle_query (xs @ x # ys)"
    by (simp add: gbm_can_handle_query_eq)
  have r: "class_name x \<notin> set xrs_chkattr \<Longrightarrow> \<not> xrs_can_handle_query (xs @ x # ys)"
    by (simp add: xrs_can_handle_query_eq)
  have s: "type_of x \<notin> suvi_required \<union> suvi_optional \<Longrightarrow> \<not> suvi_can_handle_query (xs @ x # ys)"
    by (simp add: suvi_can_handle_query_eq)
  from e g r s show ?thesis by auto
qed

text \<open>
  The theorem at one accepted query for each client, extended by an attribute the
  client does not recognise (for the EVE client the query of its test with
  \<^verbatim>\<open>Source('sdo')\<close>).
\<close>

theorem can_handle_monotone_witness:
  "type_of (Source ''sdo'') \<notin> eve_required \<union> eve_optional
   \<and> eve_can_handle_query [Time (ymd 2012 8 9) (ymd 2012 8 10), Instrument ''eve'', Source ''sdo''] = Inr False
   \<and> class_name (Wavelength 171 171) \<notin> set gbm_chkattr
   \<and> \<not> gbm_can_handle_query [Time (ymd 2012 8 9) (ymd 2012 8 10), Instrument ''gbm'', Wavelength 171 171]
   \<and> class_name (Level (PyInt 2)) \<notin> set xrs_chkattr
   \<and> \<not> xrs_can_handle_query [Time (ymd 2012 8 9) (ymd 2012 8 10), Level (PyInt 2), Instrument ''xrs'']
   \<and> type_of (Detector ''n1'') \<notin> suvi_required \<union> suvi_optional
   \<and> \<not> suvi_can_handle_query [Time (ymd 2012 8 9) (ymd 2012 8 10), Instrument ''suvi'', Detector ''n1'']"
proof -
  have a: "type_of (Source ''sdo'') \<notin> eve_required \<union> eve_optional"
    by (simp add: eve_required_def eve_optional_def)
  have b: "class_name (Wavelength 171 171) \<notin> set gbm_chkattr"
    by (simp add: gbm_chkattr_def)
  have c: "class_name (Level (PyInt 2)) \<notin> set xrs_chkattr"
    by (simp add: xrs_chkattr_def)
  have d: "type_of (Detector ''n1'') \<notin> suvi_required \<union> suvi_optional"
    by (simp add: suvi_required_def suvi_optional_def)
  have a': "eve_can_handle_query [Time (ymd 2012 8 9) (ymd 2012 8 10), Instrument ''eve'', Source ''sdo''] = Inr False"
    using a can_handle_monotone [where x = "Source ''sdo''"
        and xs = "[Time (ymd 2012 8 9) (ymd 2012 8 10), Instrument ''eve'']" and ys = "[]", THEN conjunct1]
    by simp
  have b': "\<not> gbm_can_handle_query [Time (ymd 2012 8 9) (ymd 2012 8 10), Instrument ''gbm'', Wavelength 171 171]"
    using b can_handle_monotone [where x = "Wavelength 171 171"
        and xs = "[Time (ymd 2012 8 9) (ymd 2012 8 10), Instrument ''gbm'']" and ys = "[]",
        THEN conjunct2, THEN conjunct1]
    by simp
  have c': "\<not> xrs_can_handle_query [Time (ymd 2012 8 9) (ymd 2012 8 10), Level (PyInt 2), Instrument ''xrs'']"
    using c can_handle_monotone [where x = "Level (PyInt 2)"
        and xs = "[Time (ymd 2012 8 9) (ymd 2012 8 10)]" and ys = "[Instrument ''xrs'']",
        THEN conjunct2, THEN conjunct2, THEN conjunct1]
    by simp
  have d': "\<not> suvi_can_handle_query [Time (ymd 2012 8 9) (ymd 2012 8 10), Instrument ''suvi'', Detector ''n1'']"
    using d can_handle_monotone [where x = "Detector ''n1''"
        and xs = "[Time (ymd 2012 8 9) (ymd 2012 8 10), Instrument ''suvi'']" and ys = "[]",
        THEN conjunct2, THEN conjunct2, THEN conjunct2]
    by simp
  from a b c d a' b' c' d' show ?thesis by blast
qed

text \<open>
  Claim C4. The required types of \<^verbatim>\<open>SUVIClient\<close> are \<^verbatim>\<open>Time\<close> and
  \<^verbatim>\<open>Instrument\<close>, its optional types are \<^verbatim>\<open>Wavelength\<close>, \<^verbatim>\<open>Level\<close> and
  \<^verbatim>\<open>SatelliteNumber\<close>; it accepts a query of \<^verbatim>\<open>Time\<close>, \<^verbatim>\<open>Instrument('suvi')\<close> and
  \<^verbatim>\<open>Wavelength\<close> and rejects the same query extended with a \<^verbatim>\<open>Detector\<close>, because
  it rejects every query that holds an attribute whose type is neither required nor
  optional.
\<close>

theorem suvi_rejects_unregistered_kind:
  "suvi_required = {TTime, TInstrument}
   \<and> suvi_optional = {TWavelength, TLevel, TSatelliteNumber}
   \<and> suvi_can_handle_query [Time s e, Instrument ''suvi'', Wavelength a b]
   \<and> \<not> suvi_can_handle_query [Time s e, Instrument ''suvi'', Wavelength a b, Detector d]
   \<and> ((\<exists>x\<in>set q. type_of x \<notin> suvi_required \<union> suvi_optional) \<longrightarrow> \<not> suvi_can_handle_query q)"
  by (auto simp: suvi_can_handle_query_eq suvi_required_def suvi_optional_def lower_suvi)

text \<open>
  The theorem at a query for the 171 Angstrom band, with and without a
  \<^verbatim>\<open>Detector\<close>.
\<close>

theorem suvi_rejects_unregistered_kind_witness:
  "type_of (Detector ''n1'') \<notin> suvi_required \<union> suvi_optional
   \<and> suvi_can_handle_query [Time (ymd 2019 4 3) (ymd 2019 4 4), Instrument ''suvi'', Wavelength 171 171]
   \<and> \<not> suvi_can_handle_query [Time (ymd 2019 4 3) (ymd 2019 4 4), Instrument ''suvi'', Wavelength 171 171, Detector ''n1'']"
proof -
  note t = suvi_rejects_unregistered_kind [where s = "ymd 2019 4 3" and e = "ymd 2019 4 4" and a = 171
      and b = 171 and d = "''n1''"
      and q = "[Time (ymd 2019 4 3) (ymd 2019 4 4), Instrument ''suvi'', Wavelength 171 171, Detector ''n1'']"]
  have a: "type_of (Detector ''n1'') \<notin> suvi_required \<union> suvi_optional"
    by (simp add: suvi_required_def suvi_optional_def)
  then have b: "\<exists>x\<in>set [Time (ymd 2019 4 3) (ymd 2019 4 4), Instrument ''suvi'', Wavelength 171 171, Detector ''n1''].
      type_of x \<notin> suvi_required \<union> suvi_optional"
    by simp
  from t b have c: "\<not> suvi_can_handle_query [Time (ymd 2019 4 3) (ymd 2019 4 4), Instrument ''suvi'', Wavelength 171 171, Detector ''n1'']"
    by blast
  from t have d: "suvi_can_handle_query [Time (ymd 2019 4 3) (ymd 2019 4 4), Instrument ''suvi'', Wavelength 171 171]"
    by blast
  from a c d show ?thesis by blast
qed

text \<open>
  Claim C5, as stated, fails: \<^verbatim>\<open>GBMClient._can_handle_query\<close> looks at the class
  names of the attributes and at the value of the \<^verbatim>\<open>Instrument\<close> only. The detector
  name \<^verbatim>\<open>n99\<close> is none of the registered names \<^verbatim>\<open>n0\<close> to \<^verbatim>\<open>n11\<close> in any letter
  case, and the query with \<^verbatim>\<open>Detector('n99')\<close> is accepted.
\<close>

theorem gbm_accepts_unregistered_detector:
  "\<not> name_registered ''n99'' gbm_registered_detectors \<and>
   gbm_can_handle_query [Time (ymd 2015 6 21) (ymd 2015 6 23), Instrument ''gbm'', Detector ''n99'']"
  by (simp add: n99_unregistered gbm_can_handle_query_eq gbm_chkattr_def lower_gbm)

text \<open>
  The same holds for a \<^verbatim>\<open>Resolution\<close> that is neither \<^verbatim>\<open>CSPEC\<close> nor \<^verbatim>\<open>CTIME\<close>.
\<close>

lemma gbm_accepts_unregistered_resolution:
  "\<not> name_registered ''hires'' gbm_registered_resolutions \<and>
   gbm_can_handle_query [Time (ymd 2015 6 21) (ymd 2015 6 23), Instrument ''gbm'', Resolution ''hires'']"
  by (simp add: name_registered_def gbm_registered_resolutions_def py_lower_def lower_char_def
      gbm_can_handle_query_eq gbm_chkattr_def)

text \<open>
  Claim C5, amended. The answer of \<^verbatim>\<open>GBMClient._can_handle_query\<close> does not depend
  on the value of a \<^verbatim>\<open>Detector\<close> or of a \<^verbatim>\<open>Resolution\<close>: replacing the value
  leaves the answer unchanged, and a query of \<^verbatim>\<open>Time\<close>, \<^verbatim>\<open>Instrument('gbm')\<close> and
  a \<^verbatim>\<open>Detector\<close>, a \<^verbatim>\<open>Resolution\<close> or both, of any value, is accepted.
\<close>

theorem gbm_ignores_detector_values:
  "gbm_can_handle_query (xs @ Detector d # ys) = gbm_can_handle_query (xs @ Detector d' # ys)
   \<and> gbm_can_handle_query (xs @ Resolution r # ys) = gbm_can_handle_query (xs @ Resolution r' # ys)
   \<and> gbm_can_handle_query [Time s e, Instrument ''gbm'', Detector d]
   \<and> gbm_can_handle_query [Time s e, Instrument ''gbm'', Resolution r]
   \<and> gbm_can_handle_query [Time s e, Instrument ''gbm'', Detector d, Resolution r]"
  by (simp add: gbm_can_handle_query_eq gbm_chkattr_def lower_gbm ball_Un bex_Un)



text \<open>
  Claim C7. Instrument matching is case-insensitive: two queries that are identical
  except for the letter case of the values of their \<^verbatim>\<open>Instrument\<close> attributes get
  the same answer from each of the four clients; and each client accepts every
  casing of its name in a query that it accepts for the lower-case name.
\<close>

theorem instrument_case_insensitive:
  assumes "list_all2 same_up_to_instrument_case q q'"
  shows "eve_can_handle_query q = eve_can_handle_query q'
   \<and> gbm_can_handle_query q = gbm_can_handle_query q'
   \<and> xrs_can_handle_query q = xrs_can_handle_query q'
   \<and> suvi_can_handle_query q = suvi_can_handle_query q'
   \<and> (py_lower v = ''eve'' \<longrightarrow> eve_can_handle_query [Time s e, Instrument v, Level (PyInt 0)] = Inr True)
   \<and> (py_lower v = ''gbm'' \<longrightarrow> gbm_can_handle_query [Time s e, Instrument v])
   \<and> (py_lower v = ''xrs'' \<or> py_lower v = ''goes'' \<longrightarrow> xrs_can_handle_query [Time s e, Instrument v])
   \<and> (py_lower v = ''suvi'' \<longrightarrow> suvi_can_handle_query [Time s e, Instrument v])"
proof -
  have 1: "eve_can_handle_query q = eve_can_handle_query q'"
    using same_types [OF assms] same_all [OF assms, of eve_attr_ok]
    by (simp add: eve_can_handle_query_eq check_attr_types_in_query_def same_eve_attr_ok)
  have cn: "(\<forall>x\<in>set q. class_name x \<in> set names) = (\<forall>x\<in>set q'. class_name x \<in> set names)" for names
    using assms by (rule same_all) (simp add: same_class_name)
  have ii: "(\<exists>x\<in>set q. instrument_in names x) = (\<exists>x\<in>set q'. instrument_in names x)" for names
    using assms by (rule same_ex) (rule same_instrument_in)
  have 2: "gbm_can_handle_query q = gbm_can_handle_query q'"
    by (simp only: gbm_can_handle_query_eq cn ii)
  have 3: "xrs_can_handle_query q = xrs_can_handle_query q'"
    by (simp only: xrs_can_handle_query_eq cn ii)
  have ty: "(\<forall>x\<in>set q. type_of x \<in> S) = (\<forall>x\<in>set q'. type_of x \<in> S)" for S
    using assms by (rule same_all) (simp add: same_type)
  have 4: "suvi_can_handle_query q = suvi_can_handle_query q'"
    by (simp only: suvi_can_handle_query_eq ty same_filter_length [OF assms])
  have 5: "py_lower v = ''eve'' \<longrightarrow> eve_can_handle_query [Time s e, Instrument v, Level (PyInt 0)] = Inr True"
    by (simp add: eve_can_handle_query_eq check_eve_three)
  have 6: "py_lower v = ''gbm'' \<longrightarrow> gbm_can_handle_query [Time s e, Instrument v]"
    by (simp add: gbm_can_handle_query_eq gbm_chkattr_def)
  have 7: "py_lower v = ''xrs'' \<or> py_lower v = ''goes'' \<longrightarrow> xrs_can_handle_query [Time s e, Instrument v]"
    by (auto simp: xrs_can_handle_query_eq xrs_chkattr_def)
  have 8: "py_lower v = ''suvi'' \<longrightarrow> suvi_can_handle_query [Time s e, Instrument v]"
    by (simp add: suvi_can_handle_query_eq suvi_required_def)
  from 1 2 3 4 5 6 7 8 show ?thesis by blast
qed

text \<open>
  The theorem at the query of the EVE client written with \<^verbatim>\<open>EVE\<close> and with
  \<^verbatim>\<open>eve\<close>.
\<close>

theorem instrument_case_insensitive_witness:
  "list_all2 same_up_to_instrument_case
     [Time (ymd 2012 8 9) (ymd 2012 8 10), Instrument ''EVE'', Level (PyInt 0)]
     [Time (ymd 2012 8 9) (ymd 2012 8 10), Instrument ''eve'', Level (PyInt 0)]
   \<and> py_lower ''EVE'' = ''eve''
   \<and> eve_can_handle_query [Time (ymd 2012 8 9) (ymd 2012 8 10), Instrument ''EVE'', Level (PyInt 0)] = Inr True
   \<and> eve_can_handle_query [Time (ymd 2012 8 9) (ymd 2012 8 10), Instrument ''eve'', Level (PyInt 0)] = Inr True"
proof -
  have l: "py_lower ''EVE'' = ''eve''" by (simp add: py_lower_def lower_char_def)
  have a: "list_all2 same_up_to_instrument_case
     [Time (ymd 2012 8 9) (ymd 2012 8 10), Instrument ''EVE'', Level (PyInt 0)]
     [Time (ymd 2012 8 9) (ymd 2012 8 10), Instrument ''eve'', Level (PyInt 0)]"
    by (simp add: l lower_eve)
  note t = instrument_case_insensitive [OF a, where v = "''EVE''" and s = "ymd 2012 8 9" and e = "ymd 2012 8 10"]
  from t l have b: "eve_can_handle_query [Time (ymd 2012 8 9) (ymd 2012 8 10), Instrument ''EVE'', Level (PyInt 0)] = Inr True"
    by blast
  with t have c: "eve_can_handle_query [Time (ymd 2012 8 9) (ymd 2012 8 10), Instrument ''eve'', Level (PyInt 0)] = Inr True"
    by simp
  from l a b c show ?thesis by blast
qed

section \<open>The claims about the URLs\<close>

subsection \<open>The patterns of the SUVI client, evaluated\<close>

lemma rendered_l1b:
  "map_sum id (map scraper_pattern) (suvi_loop ''1b'' 16 supported_waves None) =
   Inr [Inr (''https://data.ngdc.noaa.gov/platforms/solar-space-observing-satellites/goes/goes16/l1b/suvi-l1b-fe094/%Y/%m/%d/OR_SUVI-L1b-Fe093_G16_s%Y%j%H%M%S.*'' @ [CHR 0x5C] @ ''.fits.gz''),
        Inr (''https://data.ngdc.noaa.gov/platforms/solar-space-observing-satellites/goes/goes16/l1b/suvi-l1b-fe131/%Y/%m/%d/OR_SUVI-L1b-Fe131_G16_s%Y%j%H%M%S.*'' @ [CHR 0x5C] @ ''.fits.gz''),
        Inr (''https://data.ngdc.noaa.gov/platforms/solar-space-observing-satellites/goes/goes16/l1b/suvi-l1b-fe171/%Y/%m/%d/OR_SUVI-L1b-Fe171_G16_s%Y%j%H%M%S.*'' @ [CHR 0x5C] @ ''.fits.gz''),
        Inr (''https://data.ngdc.noaa.gov/platforms/solar-space-observing-satellites/goes/goes16/l1b/suvi-l1b-fe195/%Y/%m/%d/OR_SUVI-L1b-Fe195_G16_s%Y%j%H%M%S.*'' @ [CHR 0x5C] @ ''.fits.gz''),
        Inr (''https://data.ngdc.noaa.gov/platforms/solar-space-observing-satellites/goes/goes16/l1b/suvi-l1b-fe284/%Y/%m/%d/OR_SUVI-L1b-Fe284_G16_s%Y%j%H%M%S.*'' @ [CHR 0x5C] @ ''.fits.gz''),
        Inr (''https://data.ngdc.noaa.gov/platforms/solar-space-observing-satellites/goes/goes16/l1b/suvi-l1b-he304/%Y/%m/%d/OR_SUVI-L1b-He303_G16_s%Y%j%H%M%S.*'' @ [CHR 0x5C] @ ''.fits.gz'')]"
  by code_simp

lemma rendered_l2:
  "map_sum id (map scraper_pattern) (suvi_loop ''2'' 16 supported_waves None) =
   Inr [Inr (''https://data.ngdc.noaa.gov/platforms/solar-space-observing-satellites/goes/goes16/l2/data/suvi-l2-ci094/%Y/%m/%d/dr_suvi-l2-ci094_g16_s%Y%m%dT%H%M%SZ_.*'' @ [CHR 0x5C] @ ''.fits''),
        Inr (''https://data.ngdc.noaa.gov/platforms/solar-space-observing-satellites/goes/goes16/l2/data/suvi-l2-ci131/%Y/%m/%d/dr_suvi-l2-ci131_g16_s%Y%m%dT%H%M%SZ_.*'' @ [CHR 0x5C] @ ''.fits''),
        Inr (''https://data.ngdc.noaa.gov/platforms/solar-space-observing-satellites/goes/goes16/l2/data/suvi-l2-ci171/%Y/%m/%d/dr_suvi-l2-ci171_g16_s%Y%m%dT%H%M%SZ_.*'' @ [CHR 0x5C] @ ''.fits''),
        Inr (''https://data.ngdc.noaa.gov/platforms/solar-space-observing-satellites/goes/goes16/l2/data/suvi-l2-ci195/%Y/%m/%d/dr_suvi-l2-ci195_g16_s%Y%m%dT%H%M%SZ_.*'' @ [CHR 0x5C] @ ''.fits''),
        Inr (''https://data.ngdc.noaa.gov/platforms/solar-space-observing-satellites/goes/goes16/l2/data/suvi-l2-ci284/%Y/%m/%d/dr_suvi-l2-ci284_g16_s%Y%m%dT%H%M%SZ_.*'' @ [CHR 0x5C] @ ''.fits''),
        Inr (''https://data.ngdc.noaa.gov/platforms/solar-space-observing-satellites/goes/goes16/l2/data/suvi-l2-ci304/%Y/%m/%d/dr_suvi-l2-ci304_g16_s%Y%m%dT%H%M%SZ_.*'' @ [CHR 0x5C] @ ''.fits'')]"
  by code_simp

lemma fields_l1b:
  "map_sum id (map sc_fields) (suvi_loop ''1b'' g supported_waves None) =
   Inr [[(''level'', FStr ''1b''), (''wave'', FInt 94), (''goes_number'', FInt g), (''wave_minus1'', FInt 93)],
        [(''level'', FStr ''1b''), (''wave'', FInt 131), (''goes_number'', FInt g)],
        [(''level'', FStr ''1b''), (''wave'', FInt 171), (''goes_number'', FInt g)],
        [(''level'', FStr ''1b''), (''wave'', FInt 195), (''goes_number'', FInt g)],
        [(''level'', FStr ''1b''), (''wave'', FInt 284), (''goes_number'', FInt g)],
        [(''level'', FStr ''1b''), (''wave'', FInt 304), (''goes_number'', FInt g), (''wave_minus1'', FInt 303)]]"
  by (simp add: supported_waves_def choose_search_pattern_def make_scraper_def
      occurs_he304 occurs_fe094 occurs_fe occurs_l2)

lemma fields_l2:
  "map_sum id (map sc_fields) (suvi_loop ''2'' g supported_waves None) =
   Inr (map (\<lambda>w. [(''level'', FStr ''2''), (''wave'', FInt w), (''goes_number'', FInt g)]) supported_waves)"
  by (simp add: supported_waves_def choose_search_pattern_def make_scraper_def
      occurs_he304 occurs_fe094 occurs_fe occurs_l2)

lemma suvi_default_l1b:
  assumes "in_timerange start (ymd 2018 6 1, now)"
  shows "suvi_get_url_for_timerange now start
           \<lparr>kw_wavelength = None, kw_satellitenumber = None, kw_level = Some (LevelStr ''1b'')\<rparr>
         = suvi_loop ''1b'' 16 supported_waves None"
  using assms
  by (simp add: suvi_get_url_for_timerange_def suvi_wavelengths_def get_goes_sat_num_eq
      supported_levels_def py_trunc_of_int comp_def)

lemma in_operational_2019: "in_timerange (ymd 2019 4 3) (ymd 2018 6 1, ymd 2026 11 4)"
  by (simp add: in_timerange_def dt_le_def dt_key_def ymd_def)

text \<open>
  Claim C8. In the loop of \<^verbatim>\<open>SUVIClient._get_url_for_timerange\<close> (here for
  satellite 16 and all six bands, in the order of \<^verbatim>\<open>supported_waves\<close>) the level-1b
  patterns apply a per-band lookup: for the bands 94 and 304 the scraper gets the
  field \<^verbatim>\<open>wave_minus1 = this_wave - 1\<close> and the wavelength in the file name is
  rendered one less (\<^verbatim>\<open>Fe093\<close>, \<^verbatim>\<open>He303\<close>) than in the directory name
  (\<^verbatim>\<open>fe094\<close>, \<^verbatim>\<open>he304\<close>); for the bands 131, 171, 195 and 284 there is no such
  field and the wavelength is rendered unchanged. The level-2 patterns never get the
  field and render the wavelength unchanged in both places. With no wavelength and
  no satellite number given and a start in the operational range, the function
  returns exactly the scrapers of this loop.
\<close>

theorem suvi_l1b_wave_minus1:
  "map_sum id (map scraper_pattern) (suvi_loop ''1b'' 16 supported_waves None) =
   Inr [Inr (''https://data.ngdc.noaa.gov/platforms/solar-space-observing-satellites/goes/goes16/l1b/suvi-l1b-fe094/%Y/%m/%d/OR_SUVI-L1b-Fe093_G16_s%Y%j%H%M%S.*'' @ [CHR 0x5C] @ ''.fits.gz''),
        Inr (''https://data.ngdc.noaa.gov/platforms/solar-space-observing-satellites/goes/goes16/l1b/suvi-l1b-fe131/%Y/%m/%d/OR_SUVI-L1b-Fe131_G16_s%Y%j%H%M%S.*'' @ [CHR 0x5C] @ ''.fits.gz''),
        Inr (''https://data.ngdc.noaa.gov/platforms/solar-space-observing-satellites/goes/goes16/l1b/suvi-l1b-fe171/%Y/%m/%d/OR_SUVI-L1b-Fe171_G16_s%Y%j%H%M%S.*'' @ [CHR 0x5C] @ ''.fits.gz''),
        Inr (''https://data.ngdc.noaa.gov/platforms/solar-space-observing-satellites/goes/goes16/l1b/suvi-l1b-fe195/%Y/%m/%d/OR_SUVI-L1b-Fe195_G16_s%Y%j%H%M%S.*'' @ [CHR 0x5C] @ ''.fits.gz''),
        Inr (''https://data.ngdc.noaa.gov/platforms/solar-space-observing-satellites/goes/goes16/l1b/suvi-l1b-fe284/%Y/%m/%d/OR_SUVI-L1b-Fe284_G16_s%Y%j%H%M%S.*'' @ [CHR 0x5C] @ ''.fits.gz''),
        Inr (''https://data.ngdc.noaa.gov/platforms/solar-space-observing-satellites/goes/goes16/l1b/suvi-l1b-he304/%Y/%m/%d/OR_SUVI-L1b-He303_G16_s%Y%j%H%M%S.*'' @ [CHR 0x5C] @ ''.fits.gz'')]
   \<and> map_sum id (map scraper_pattern) (suvi_loop ''2'' 16 supported_waves None) =
   Inr [Inr (''https://data.ngdc.noaa.gov/platforms/solar-space-observing-satellites/goes/goes16/l2/data/suvi-l2-ci094/%Y/%m/%d/dr_suvi-l2-ci094_g16_s%Y%m%dT%H%M%SZ_.*'' @ [CHR 0x5C] @ ''.fits''),
        Inr (''https://data.ngdc.noaa.gov/platforms/solar-space-observing-satellites/goes/goes16/l2/data/suvi-l2-ci131/%Y/%m/%d/dr_suvi-l2-ci131_g16_s%Y%m%dT%H%M%SZ_.*'' @ [CHR 0x5C] @ ''.fits''),
        Inr (''https://data.ngdc.noaa.gov/platforms/solar-space-observing-satellites/goes/goes16/l2/data/suvi-l2-ci171/%Y/%m/%d/dr_suvi-l2-ci171_g16_s%Y%m%dT%H%M%SZ_.*'' @ [CHR 0x5C] @ ''.fits''),
        Inr (''https://data.ngdc.noaa.gov/platforms/solar-space-observing-satellites/goes/goes16/l2/data/suvi-l2-ci195/%Y/%m/%d/dr_suvi-l2-ci195_g16_s%Y%m%dT%H%M%SZ_.*'' @ [CHR 0x5C] @ ''.fits''),
        Inr (''https://data.ngdc.noaa.gov/platforms/solar-space-observing-satellites/goes/goes16/l2/data/suvi-l2-ci284/%Y/%m/%d/dr_suvi-l2-ci284_g16_s%Y%m%dT%H%M%SZ_.*'' @ [CHR 0x5C] @ ''.fits''),
        Inr (''https://data.ngdc.noaa.gov/platforms/solar-space-observing-satellites/goes/goes16/l2/data/suvi-l2-ci304/%Y/%m/%d/dr_suvi-l2-ci304_g16_s%Y%m%dT%H%M%SZ_.*'' @ [CHR 0x5C] @ ''.fits'')]
   \<and> map_sum id (map sc_fields) (suvi_loop ''1b'' g supported_waves None) =
   Inr [[(''level'', FStr ''1b''), (''wave'', FInt 94), (''goes_number'', FInt g), (''wave_minus1'', FInt 93)],
        [(''level'', FStr ''1b''), (''wave'', FInt 131), (''goes_number'', FInt g)],
        [(''level'', FStr ''1b''), (''wave'', FInt 171), (''goes_number'', FInt g)],
        [(''level'', FStr ''1b''), (''wave'', FInt 195), (''goes_number'', FInt g)],
        [(''level'', FStr ''1b''), (''wave'', FInt 284), (''goes_number'', FInt g)],
        [(''level'', FStr ''1b''), (''wave'', FInt 304), (''goes_number'', FInt g), (''wave_minus1'', FInt 303)]]
   \<and> map_sum id (map sc_fields) (suvi_loop ''2'' g supported_waves None) =
   Inr (map (\<lambda>w. [(''level'', FStr ''2''), (''wave'', FInt w), (''goes_number'', FInt g)]) supported_waves)
   \<and> (in_timerange start (ymd 2018 6 1, now) \<longrightarrow>
      suvi_get_url_for_timerange now start
        \<lparr>kw_wavelength = None, kw_satellitenumber = None, kw_level = Some (LevelStr ''1b'')\<rparr>
      = suvi_loop ''1b'' 16 supported_waves None)"
proof -
  have e: "(in_timerange start (ymd 2018 6 1, now) \<longrightarrow>
    suvi_get_url_for_timerange now start
      \<lparr>kw_wavelength = None, kw_satellitenumber = None, kw_level = Some (LevelStr ''1b'')\<rparr>
    = suvi_loop ''1b'' 16 supported_waves None)"
    by (auto intro: suvi_default_l1b)
  from rendered_l1b rendered_l2 fields_l1b [of g] fields_l2 [of g] e show ?thesis
    by (intro conjI)
qed

text \<open>
  The theorem for a search that starts on 3 April 2019, with the time of the call on
  4 November 2026: the six level-1b patterns that the function searches with.
\<close>

theorem suvi_l1b_wave_minus1_witness:
  "in_timerange (ymd 2019 4 3) (ymd 2018 6 1, ymd 2026 11 4)
   \<and> map_sum id (map scraper_pattern)
        (suvi_get_url_for_timerange (ymd 2026 11 4) (ymd 2019 4 3)
           \<lparr>kw_wavelength = None, kw_satellitenumber = None, kw_level = Some (LevelStr ''1b'')\<rparr>) =
   Inr [Inr (''https://data.ngdc.noaa.gov/platforms/solar-space-observing-satellites/goes/goes16/l1b/suvi-l1b-fe094/%Y/%m/%d/OR_SUVI-L1b-Fe093_G16_s%Y%j%H%M%S.*'' @ [CHR 0x5C] @ ''.fits.gz''),
        Inr (''https://data.ngdc.noaa.gov/platforms/solar-space-observing-satellites/goes/goes16/l1b/suvi-l1b-fe131/%Y/%m/%d/OR_SUVI-L1b-Fe131_G16_s%Y%j%H%M%S.*'' @ [CHR 0x5C] @ ''.fits.gz''),
        Inr (''https://data.ngdc.noaa.gov/platforms/solar-space-observing-satellites/goes/goes16/l1b/suvi-l1b-fe171/%Y/%m/%d/OR_SUVI-L1b-Fe171_G16_s%Y%j%H%M%S.*'' @ [CHR 0x5C] @ ''.fits.gz''),
        Inr (''https://data.ngdc.noaa.gov/platforms/solar-space-observing-satellites/goes/goes16/l1b/suvi-l1b-fe195/%Y/%m/%d/OR_SUVI-L1b-Fe195_G16_s%Y%j%H%M%S.*'' @ [CHR 0x5C] @ ''.fits.gz''),
        Inr (''https://data.ngdc.noaa.gov/platforms/solar-space-observing-satellites/goes/goes16/l1b/suvi-l1b-fe284/%Y/%m/%d/OR_SUVI-L1b-Fe284_G16_s%Y%j%H%M%S.*'' @ [CHR 0x5C] @ ''.fits.gz''),
        Inr (''https://data.ngdc.noaa.gov/platforms/solar-space-observing-satellites/goes/goes16/l1b/suvi-l1b-he304/%Y/%m/%d/OR_SUVI-L1b-He303_G16_s%Y%j%H%M%S.*'' @ [CHR 0x5C] @ ''.fits.gz'')]"
proof -
  note t = suvi_l1b_wave_minus1 [where start = "ymd 2019 4 3" and now = "ymd 2026 11 4"]
  from t in_operational_2019
  have "suvi_get_url_for_timerange (ymd 2026 11 4) (ymd 2019 4 3)
           \<lparr>kw_wavelength = None, kw_satellitenumber = None, kw_level = Some (LevelStr ''1b'')\<rparr>
        = suvi_loop ''1b'' 16 supported_waves None"
    by blast
  with t [THEN conjunct1] in_operational_2019 show ?thesis
    by (simp only: simp_thms)
qed

text \<open>
  Claim C9. The template of \<^verbatim>\<open>EVEClient\<close> has daily resolution, and the enumeration
  of the buckets is inclusive of both endpoints: the range from 7 July 2012 to
  14 July 2012 yields exactly 8 daily buckets, the first URL is the one of 7 July and
  the last the one of 14 July (the URLs that the test of the client expects). A
  degenerate range, whose start is its end, yields exactly one bucket, for every
  time; for 21 April 2012 its URL is the one that the test expects.
\<close>

theorem eve_daily_buckets:
  "template_resolution eve_baseurl None = Some (Some Day)
   \<and> enumerate_days (ymd 2012 7 7) (ymd 2012 7 14) =
       [ymd 2012 7 7, ymd 2012 7 8, ymd 2012 7 9, ymd 2012 7 10, ymd 2012 7 11, ymd 2012 7 12,
        ymd 2012 7 13, ymd 2012 7 14]
   \<and> length (eve_urls (ymd 2012 7 7) (ymd 2012 7 14)) = 8
   \<and> hd (eve_urls (ymd 2012 7 7) (ymd 2012 7 14)) =
       Some ''http://lasp.colorado.edu/eve/data_access/evewebdata/quicklook/L0CS/SpWx/2012/20120707_EVE_L0CS_DIODES_1m.txt''
   \<and> last (eve_urls (ymd 2012 7 7) (ymd 2012 7 14)) =
       Some ''http://lasp.colorado.edu/eve/data_access/evewebdata/quicklook/L0CS/SpWx/2012/20120714_EVE_L0CS_DIODES_1m.txt''
   \<and> enumerate_days t t = [start_of_day t]
   \<and> length (eve_urls t t) = 1
   \<and> eve_urls (ymd 2012 4 21) (ymd 2012 4 21) =
       [Some ''http://lasp.colorado.edu/eve/data_access/evewebdata/quicklook/L0CS/SpWx/2012/20120421_EVE_L0CS_DIODES_1m.txt'']"
proof -
  have 1: "template_resolution eve_baseurl None = Some (Some Day)"
    by code_simp
  have 3: "length (eve_urls (ymd 2012 7 7) (ymd 2012 7 14)) = 8"
    by (simp add: eve_urls_def enum_july)
  have 4: "hd (eve_urls (ymd 2012 7 7) (ymd 2012 7 14)) =
       Some ''http://lasp.colorado.edu/eve/data_access/evewebdata/quicklook/L0CS/SpWx/2012/20120707_EVE_L0CS_DIODES_1m.txt''"
    by (simp add: eve_urls_def enum_july render_ymd pad4_2012 pad2_vals)
  have 5: "last (eve_urls (ymd 2012 7 7) (ymd 2012 7 14)) =
       Some ''http://lasp.colorado.edu/eve/data_access/evewebdata/quicklook/L0CS/SpWx/2012/20120714_EVE_L0CS_DIODES_1m.txt''"
    by (simp add: eve_urls_def enum_july render_ymd pad4_2012 pad2_vals)
  have 7: "length (eve_urls t t) = 1"
    by (simp add: eve_urls_def enum_one)
  have 8: "eve_urls (ymd 2012 4 21) (ymd 2012 4 21) =
       [Some ''http://lasp.colorado.edu/eve/data_access/evewebdata/quicklook/L0CS/SpWx/2012/20120421_EVE_L0CS_DIODES_1m.txt'']"
    by (simp add: eve_urls_def enum_one start_of_day_ymd render_ymd pad4_2012 pad2_vals)
  from 1 enum_july 3 4 5 enum_one [of t] 7 8 show ?thesis
    by (intro conjI)
qed

subsection \<open>The validation of the SUVI client\<close>

lemma not_operational_2030: "\<not> in_timerange (ymd 2030 1 1) (ymd 2018 6 1, ymd 2026 11 4)"
  by (simp add: in_timerange_def dt_le_def dt_key_def ymd_def)

lemma not_operational_2018: "\<not> in_timerange (ymd 2018 1 1) (ymd 2018 6 1, ymd 2026 11 4)"
  by (simp add: in_timerange_def dt_le_def dt_key_def ymd_def)

lemma level_default_supported: "\<not> level_unsupported None"
  by (simp add: level_unsupported_def supported_levels_def)

text \<open>
  The default of the keyword \<^verbatim>\<open>satellitenumber\<close> is computed before the keyword is
  looked up, so a start outside the operational range raises \<^verbatim>\<open>ValueError\<close> also
  when a satellite number is given: here for satellite 16 and a start on 1 January
  2018, with no other keyword.
\<close>

lemma suvi_default_evaluated_eagerly:
  "suvi_get_url_for_timerange (ymd 2026 11 4) (ymd 2018 1 1)
     \<lparr>kw_wavelength = None, kw_satellitenumber = Some 16, kw_level = None\<rparr> = Inl ValueError"
  using suvi_get_url_for_timerange_cases [of "\<lparr>kw_wavelength = None, kw_satellitenumber = Some 16, kw_level = None\<rparr>"
      "ymd 2018 1 1" "ymd 2026 11 4"] not_operational_2018
  by blast

text \<open>
  Claim C10, as stated, fails: a search without keywords (all wavelengths, level 2,
  no satellite number) whose range starts on 1 January 2030, after the time of the
  call on 4 November 2026, meets none of the listed conditions (its start is not
  before 1 June 2018), and the function raises \<^verbatim>\<open>ValueError\<close>: no satellite is
  operational at a start after the current time either.
\<close>

theorem suvi_raises_for_future_start:
  "\<not> suvi_claimed_invalid (ymd 2030 1 1) \<lparr>kw_wavelength = None, kw_satellitenumber = None, kw_level = None\<rparr>
   \<and> suvi_get_url_for_timerange (ymd 2026 11 4) (ymd 2030 1 1)
       \<lparr>kw_wavelength = None, kw_satellitenumber = None, kw_level = None\<rparr> = Inl ValueError"
proof -
  have a: "\<not> suvi_claimed_invalid (ymd 2030 1 1) \<lparr>kw_wavelength = None, kw_satellitenumber = None, kw_level = None\<rparr>"
    by (simp add: suvi_claimed_invalid_def wavelength_unsupported_def satellite_unsupported_def
        level_default_supported dt_le_def dt_key_def ymd_def)
  have b: "suvi_get_url_for_timerange (ymd 2026 11 4) (ymd 2030 1 1)
       \<lparr>kw_wavelength = None, kw_satellitenumber = None, kw_level = None\<rparr> = Inl ValueError"
    using suvi_get_url_for_timerange_cases [of "\<lparr>kw_wavelength = None, kw_satellitenumber = None, kw_level = None\<rparr>"
        "ymd 2030 1 1" "ymd 2026 11 4"] not_operational_2030
    by blast
  from a b show ?thesis by blast
qed

text \<open>
  Claim C10, amended. For a call in which no satellite number is given, or whose
  range starts within the operational range from 1 June 2018 to the time of the
  call, \<^verbatim>\<open>SUVIClient._get_url_for_timerange\<close> raises \<^verbatim>\<open>ValueError\<close>, before any
  scraper is built, exactly when one of its inputs fails validation: a wavelength
  quantity whose value in Angstrom, truncated to an integer, is none of 94, 131,
  171, 195, 284 and 304, or a wavelength range that holds none of them; a satellite
  number less than 16; a level whose string form is neither \<^verbatim>\<open>2\<close> nor \<^verbatim>\<open>1b\<close>; or
  no satellite number given and a start outside the operational range (before
  1 June 2018 or after the time of the call). Otherwise it returns its scrapers.
\<close>

theorem suvi_raises_exactly_when_invalid:
  assumes "kw_satellitenumber kw = None \<or> in_timerange start (ymd 2018 6 1, now)"
  shows "(suvi_get_url_for_timerange now start kw = Inl ValueError) = suvi_input_invalid now start kw
         \<and> (\<not> suvi_input_invalid now start kw \<longrightarrow>
              (\<exists>scs. suvi_get_url_for_timerange now start kw = Inr scs))"
proof -
  have inv: "suvi_input_invalid now start kw =
      (wavelength_unsupported (kw_wavelength kw) \<or> \<not> in_timerange start (ymd 2018 6 1, now)
       \<or> satellite_unsupported (kw_satellitenumber kw) \<or> level_unsupported (kw_level kw))"
    using assms by (auto simp: suvi_input_invalid_def)
  show ?thesis
    unfolding inv using suvi_get_url_for_timerange_cases [of kw start now] by auto
qed

text \<open>
  The theorem at a call for the 171 Angstrom band of satellite 16 at level 1b, which
  starts on 3 April 2019 and returns its scraper, and at a call without keywords
  that starts on 1 January 2018 and raises.
\<close>

theorem suvi_raises_exactly_when_invalid_witness:
  "in_timerange (ymd 2019 4 3) (ymd 2018 6 1, ymd 2026 11 4)
   \<and> \<not> suvi_input_invalid (ymd 2026 11 4) (ymd 2019 4 3)
         \<lparr>kw_wavelength = Some (Quantity 171), kw_satellitenumber = Some 16, kw_level = Some (LevelStr ''1b'')\<rparr>
   \<and> (\<exists>scs. suvi_get_url_for_timerange (ymd 2026 11 4) (ymd 2019 4 3)
         \<lparr>kw_wavelength = Some (Quantity 171), kw_satellitenumber = Some 16, kw_level = Some (LevelStr ''1b'')\<rparr>
       = Inr scs)
   \<and> suvi_input_invalid (ymd 2026 11 4) (ymd 2018 1 1)
         \<lparr>kw_wavelength = None, kw_satellitenumber = None, kw_level = None\<rparr>
   \<and> suvi_get_url_for_timerange (ymd 2026 11 4) (ymd 2018 1 1)
         \<lparr>kw_wavelength = None, kw_satellitenumber = None, kw_level = None\<rparr> = Inl ValueError"
proof -
  have a: "\<not> suvi_input_invalid (ymd 2026 11 4) (ymd 2019 4 3)
         \<lparr>kw_wavelength = Some (Quantity 171), kw_satellitenumber = Some 16, kw_level = Some (LevelStr ''1b'')\<rparr>"
    by (simp add: suvi_input_invalid_def wavelength_unsupported_def satellite_unsupported_def
        level_unsupported_def supported_levels_def supported_waves_def py_trunc_def)
  have b: "suvi_input_invalid (ymd 2026 11 4) (ymd 2018 1 1)
         \<lparr>kw_wavelength = None, kw_satellitenumber = None, kw_level = None\<rparr>"
    unfolding suvi_input_invalid_def using not_operational_2018 by simp
  have c: "\<exists>scs. suvi_get_url_for_timerange (ymd 2026 11 4) (ymd 2019 4 3)
         \<lparr>kw_wavelength = Some (Quantity 171), kw_satellitenumber = Some 16, kw_level = Some (LevelStr ''1b'')\<rparr>
       = Inr scs"
    using suvi_raises_exactly_when_invalid [where now = "ymd 2026 11 4" and start = "ymd 2019 4 3"
        and kw = "\<lparr>kw_wavelength = Some (Quantity 171), kw_satellitenumber = Some 16, kw_level = Some (LevelStr ''1b'')\<rparr>"]
      in_operational_2019 a
    by blast
  have d: "suvi_get_url_for_timerange (ymd 2026 11 4) (ymd 2018 1 1)
         \<lparr>kw_wavelength = None, kw_satellitenumber = None, kw_level = None\<rparr> = Inl ValueError"
    using suvi_raises_exactly_when_invalid [where now = "ymd 2026 11 4" and start = "ymd 2018 1 1"
        and kw = "\<lparr>kw_wavelength = None, kw_satellitenumber = None, kw_level = None\<rparr>"] b
    by simp
  from in_operational_2019 a b c d show ?thesis by blast
qed

end
